theory Spec2Isabelle
  imports Main "HOL-Library.AList"
begin

section \<open>JavaScript values and coercions\<close>

text \<open>
  The program is JavaScript. Its envelopes, tool arguments and patches are plain JSON-like
  values; \<open>JUndef\<close> is JavaScript's \<open>undefined\<close>. Numbers are modelled as exact
  integers: a number with a fractional part, \<open>NaN\<close> and the infinities are outside
  the model, and so is the rounding of integers beyond \<open>2^53\<close>. A string is a list of
  8-bit characters. An object is an association list; \<open>obj_get\<close> reads the first
  entry of a key (a JavaScript object has each key once).
\<close>

datatype json =
    JUndef
  | JNull
  | JBool bool
  | JNum int
  | JStr string
  | JArr "json list"
  | JObj "(string \<times> json) list"

text \<open>Truthiness, as \<open>if (v)\<close>, \<open>!v\<close>, \<open>a || b\<close> and \<open>a && b\<close> read it.\<close>

fun truthy :: "json \<Rightarrow> bool" where
  "truthy JUndef = False"
| "truthy JNull = False"
| "truthy (JBool b) = b"
| "truthy (JNum n) = (n \<noteq> 0)"
| "truthy (JStr s) = (s \<noteq> [])"
| "truthy (JArr xs) = True"
| "truthy (JObj kvs) = True"

definition jor :: "json \<Rightarrow> json \<Rightarrow> json" where
  "jor a b = (if truthy a then a else b)"

text \<open>\<open>a ?? b\<close>: the right operand only for \<open>null\<close> and \<open>undefined\<close>.\<close>

definition jnullish :: "json \<Rightarrow> bool" where
  "jnullish v = (v = JUndef \<or> v = JNull)"

definition jcoalesce :: "json \<Rightarrow> json \<Rightarrow> json" where
  "jcoalesce a b = (if jnullish a then b else a)"

text \<open>
  \<open>v?.k\<close> for the property names the program reads (none of them is a built-in
  property of a string, number or array): the entry of an object, \<open>undefined\<close> for
  everything else.
\<close>

fun obj_get :: "json \<Rightarrow> string \<Rightarrow> json" where
  "obj_get (JObj kvs) k = (case map_of kvs k of Some v \<Rightarrow> v | None \<Rightarrow> JUndef)"
| "obj_get v k = JUndef"

text \<open>\<open>isObject(v)\<close>: \<open>v && typeof v === 'object' && !Array.isArray(v)\<close>.\<close>

fun isObject :: "json \<Rightarrow> bool" where
  "isObject (JObj kvs) = True"
| "isObject v = False"

text \<open>\<open>v && typeof v === 'object'\<close>: objects and arrays.\<close>

fun isObjectLike :: "json \<Rightarrow> bool" where
  "isObjectLike (JObj kvs) = True"
| "isObjectLike (JArr xs) = True"
| "isObjectLike v = False"

subsection \<open>Strings\<close>

definition digit_chars :: string where
  "digit_chars = ''0123456789''"

definition hex_chars :: string where
  "hex_chars = ''0123456789abcdefABCDEF''"

definition lower_hex_chars :: string where
  "lower_hex_chars = ''0123456789abcdef''"

definition upper_chars :: string where
  "upper_chars = ''ABCDEFGHIJKLMNOPQRSTUVWXYZ''"

definition ws_chars :: string where
  "ws_chars = [CHR 0x09, CHR 0x0A, CHR 0x0B, CHR 0x0C, CHR 0x0D, CHR 0x20, CHR 0xA0]"

definition is_ws :: "char \<Rightarrow> bool" where
  "is_ws c = (c \<in> set ws_chars)"

definition is_digit :: "char \<Rightarrow> bool" where
  "is_digit c = (c \<in> set digit_chars)"

text \<open>\<open>String.prototype.trim\<close>.\<close>

definition trim :: "string \<Rightarrow> string" where
  "trim s = rev (dropWhile is_ws (rev (dropWhile is_ws s)))"

text \<open>\<open>String.prototype.toLowerCase\<close> on the ASCII letters.\<close>

definition lower_chars :: string where
  "lower_chars = ''abcdefghijklmnopqrstuvwxyz''"

definition lower_char :: "char \<Rightarrow> char" where
  "lower_char c = (case map_of (zip upper_chars lower_chars) c of Some d \<Rightarrow> d | None \<Rightarrow> c)"

definition toLowerCase :: "string \<Rightarrow> string" where
  "toLowerCase s = map lower_char s"

text \<open>\<open>/^[0-9a-f]{64}$/i\<close>, \<open>/^[0-9a-f]{128}$/i\<close>, \<open>/^[0-9a-f]{64}$/\<close> and \<open>/^[0-9]+$/\<close>.\<close>

definition is_hex_n_i :: "nat \<Rightarrow> string \<Rightarrow> bool" where
  "is_hex_n_i n s = (length s = n \<and> list_all (\<lambda>c. c \<in> set hex_chars) s)"

definition is_hex_n :: "nat \<Rightarrow> string \<Rightarrow> bool" where
  "is_hex_n n s = (length s = n \<and> list_all (\<lambda>c. c \<in> set lower_hex_chars) s)"

definition is_digits :: "string \<Rightarrow> bool" where
  "is_digits s = (s \<noteq> [] \<and> list_all is_digit s)"

text \<open>Decimal rendering of an integer, as \<open>String(n)\<close> prints one below \<open>10^21\<close>.\<close>

fun nat_str :: "nat \<Rightarrow> string" where
  "nat_str n = (if n < 10 then [digit_chars ! n] else nat_str (n div 10) @ [digit_chars ! (n mod 10)])"

declare nat_str.simps [simp del]

definition int_str :: "int \<Rightarrow> string" where
  "int_str i = (if i < 0 then CHR ''-'' # nat_str (nat (- i)) else nat_str (nat i))"

fun join_comma :: "string list \<Rightarrow> string" where
  "join_comma [] = []"
| "join_comma [s] = s"
| "join_comma (s # ss) = s @ '','' @ join_comma ss"

text \<open>
  \<open>String(v)\<close>. An array prints its elements joined by commas, \<open>null\<close> and
  \<open>undefined\<close> elements as the empty string; a plain object prints
  \<open>[object Object]\<close>.
\<close>

fun String :: "json \<Rightarrow> string" where
  "String JUndef = ''undefined''"
| "String JNull = ''null''"
| "String (JBool b) = (if b then ''true'' else ''false'')"
| "String (JNum n) = int_str n"
| "String (JStr s) = s"
| "String (JArr xs) = join_comma (map (\<lambda>v. if v = JUndef \<or> v = JNull then [] else String v) xs)"
| "String (JObj kvs) = ''[object Object]''"

text \<open>The idiom \<open>String(v || '').trim()\<close>.\<close>

definition str_or_empty :: "json \<Rightarrow> string" where
  "str_or_empty v = trim (String (jor v (JStr [])))"

text \<open>
  \<open>Number.parseInt(s, 10)\<close>: leading white space, an optional sign, then the longest
  run of decimal digits; \<open>None\<close> is \<open>NaN\<close>.
\<close>

definition digit_val :: "char \<Rightarrow> nat" where
  "digit_val c = of_char c - 48"

definition digits_val :: "string \<Rightarrow> nat" where
  "digits_val ds = foldl (\<lambda>acc c. 10 * acc + digit_val c) 0 ds"

definition parseInt :: "string \<Rightarrow> int option" where
  "parseInt s =
     (let s1 = dropWhile is_ws s;
          neg = (s1 \<noteq> [] \<and> hd s1 = CHR ''-'');
          s2 = (if s1 \<noteq> [] \<and> (hd s1 = CHR ''-'' \<or> hd s1 = CHR ''+'') then tl s1 else s1);
          ds = takeWhile is_digit s2
      in if ds = [] then None
         else Some (if neg then - int (digits_val ds) else int (digits_val ds)))"

text \<open>\<open>toIntOrNull(v)\<close> of tradeAuto.js.\<close>

definition toIntOrNull :: "json \<Rightarrow> int option" where
  "toIntOrNull v =
     (case v of
        JUndef \<Rightarrow> None
      | JNull \<Rightarrow> None
      | JNum n \<Rightarrow> Some n
      | _ \<Rightarrow> parseInt (trim (String v)))"


text \<open>Writing and deleting a property of an object (\<open>o.k = v\<close>, \<open>delete o.k\<close>).\<close>

fun obj_set :: "string \<Rightarrow> json \<Rightarrow> json \<Rightarrow> json" where
  "obj_set k v (JObj kvs) = JObj (AList.update k v kvs)"
| "obj_set k v j = j"

fun obj_delete :: "string \<Rightarrow> json \<Rightarrow> json" where
  "obj_delete k (JObj kvs) = JObj (AList.delete k kvs)"
| "obj_delete k j = j"

text \<open>
  \<open>JSON.parse(JSON.stringify(v))\<close>: a property whose value is \<open>undefined\<close> is
  dropped, an \<open>undefined\<close> array element becomes \<open>null\<close>.
\<close>

fun json_clone :: "json \<Rightarrow> json" where
  "json_clone (JObj kvs) =
     JObj (map (\<lambda>kv. (fst kv, json_clone (snd kv))) (filter (\<lambda>kv. snd kv \<noteq> JUndef) kvs))"
| "json_clone (JArr xs) = JArr (map (\<lambda>v. if v = JUndef then JNull else json_clone v) xs)"
| "json_clone v = v"

section \<open>The outside world\<close>

text \<open>
  Everything the program awaits or reads from outside is a transition of a world
  \<open>'w\<close>: \<open>clock\<close> is \<open>Date.now()\<close> in milliseconds and \<open>runTool\<close> is the injected
  \<open>runTool({tool, args})\<close>, which either resolves to a value (\<open>Inr\<close>) or rejects
  with an error message (\<open>Inl\<close>); a call that hits the timeout of
  \<open>_runToolWithTimeout\<close> is a rejection. The world moves at tool calls and between
  timer events; the synchronous code in between reads one clock.
\<close>

record 'w env =
  clock :: "'w \<Rightarrow> int"
  runTool :: "string \<Rightarrow> json \<Rightarrow> 'w \<Rightarrow> (string + json) \<times> 'w"

section \<open>The autopost scheduler (autopost.js)\<close>

datatype ap_error =
    NameRequired
  | NameExists string
  | ToolNotAllowed
  | MustBeInteger
  | MustBeGE int
  | MustBeLE int
  | TtlRequired
  | ArgsMustBeObject
  | NotInFuture
  | HorizonTooShort
  | HorizonTooLong

text \<open>
  \<open>clampInt(n, {min, max})\<close> of autopost.js. In spite of its name it validates: a
  value outside the bounds throws. \<open>None\<close> is an absent bound.
\<close>

definition clampInt :: "json \<Rightarrow> int option \<Rightarrow> int option \<Rightarrow> ap_error + int" where
  "clampInt n mn mx =
     (case n of
        JNum i \<Rightarrow>
          (case mn of
             Some lo \<Rightarrow> if i < lo then Inl (MustBeGE lo)
                        else (case mx of Some hi \<Rightarrow> if i > hi then Inl (MustBeLE hi) else Inr i
                                       | None \<Rightarrow> Inr i)
           | None \<Rightarrow> (case mx of Some hi \<Rightarrow> if i > hi then Inl (MustBeLE hi) else Inr i
                                | None \<Rightarrow> Inr i))
      | _ \<Rightarrow> Inl MustBeInteger)"

definition safeCloneArgs :: "json \<Rightarrow> json" where
  "safeCloneArgs a = (if isObject a then json_clone a else JObj [])"

text \<open>
  A job object. \<open>job_timer\<close> is \<open>job._timer\<close>: the interval timer of the job once
  \<open>setInterval\<close> has run. The promise queue \<open>job._queue\<close> only orders the runs; each
  queued run is a later \<open>runOnce\<close> step.
\<close>

record job =
  job_name :: string
  job_tool :: string
  intervalSec :: int
  ttlSec :: int
  validUntilUnix :: int
  job_args :: json
  runs :: nat
  startedAt :: int
  lastRunAt :: "int option"
  lastOk :: "bool option"
  lastError :: "string option"
  job_timer :: "nat option"

text \<open>
  The manager. Job objects live in \<open>heap\<close> and are named by their index, since the
  closures \<open>runOnce\<close> and the interval handler keep their job after \<open>jobs\<close> has
  dropped it. \<open>jobs\<close> is the Map from names to jobs, \<open>timers\<close> the interval timers
  that are still armed, and \<open>calls\<close> the history of \<open>runTool\<close> invocations (the
  job, the clock at the call, the tool and its args): a ghost field, which the program
  does not keep.
\<close>

record ap_call =
  call_job :: nat
  call_at :: int
  call_tool :: string
  call_args :: json

record autopost =
  jobs :: "(string \<times> nat) list"
  heap :: "job list"
  timers :: "nat list"
  calls :: "ap_call list"

definition autopost_init :: autopost where
  "autopost_init = \<lparr> jobs = [], heap = [], timers = [], calls = [] \<rparr>"

datatype run_result = RunStopped | RunOk json | RunFailed string

definition expire_job :: "nat \<Rightarrow> autopost \<Rightarrow> autopost" where
  "expire_job j m =
     (let jb = heap m ! j in
      m\<lparr> timers := (case job_timer jb of Some t \<Rightarrow> removeAll t (timers m) | None \<Rightarrow> timers m),
         jobs := AList.delete (job_name jb) (jobs m),
         heap := (heap m)[j := jb\<lparr> lastOk := Some True, lastError := Some ''expired'' \<rparr>] \<rparr>)"

definition build_runArgs :: "job \<Rightarrow> json" where
  "build_runArgs jb =
     (let runArgs = safeCloneArgs (job_args jb) in
      if job_tool jb = ''intercomswap_offer_post''
      then obj_set ''valid_until_unix'' (JNum (validUntilUnix jb)) (obj_delete ''ttl_sec'' runArgs)
      else if job_tool jb = ''intercomswap_rfq_post''
      then obj_set ''valid_until_unix'' (JNum (validUntilUnix jb)) runArgs
      else runArgs)"

text \<open>\<open>runOnce\<close>, the closure of \<open>start\<close>, for the job at \<open>j\<close>.\<close>

definition runOnce :: "'w env \<Rightarrow> nat \<Rightarrow> 'w \<Rightarrow> autopost \<Rightarrow> run_result \<times> autopost \<times> 'w" where
  "runOnce env j w m =
     (let jb = heap m ! j; nowSec = clock env w div 1000 in
      if nowSec \<ge> validUntilUnix jb then (RunStopped, expire_job j m, w)
      else
        let runArgs = build_runArgs jb;
            jb1 = jb\<lparr> lastRunAt := Some (clock env w) \<rparr>;
            r = runTool env (job_tool jb) runArgs w;
            m1 = m\<lparr> calls := calls m @ [\<lparr> call_job = j, call_at = clock env w,
                                           call_tool = job_tool jb, call_args = runArgs \<rparr>] \<rparr>
        in case fst r of
             Inr out \<Rightarrow>
               (RunOk out,
                m1\<lparr> heap := (heap m)[j := jb1\<lparr> runs := runs jb + 1, lastOk := Some True,
                                                lastError := None \<rparr>] \<rparr>,
                snd r)
           | Inl err \<Rightarrow>
               (RunFailed err,
                m1\<lparr> heap := (heap m)[j := jb1\<lparr> runs := runs jb + 1, lastOk := Some False,
                                                lastError := Some err \<rparr>] \<rparr>,
                snd r))"

text \<open>
  The handler given to \<open>setInterval\<close>. The flag tells whether it queued a run
  (\<open>job._queue.then(runOnce)\<close>).
\<close>

definition intervalTick :: "'w env \<Rightarrow> nat \<Rightarrow> 'w \<Rightarrow> autopost \<Rightarrow> bool \<times> autopost" where
  "intervalTick env j w m =
     (let jb = heap m ! j; nowSec = clock env w div 1000 in
      if nowSec \<ge> validUntilUnix jb then (False, expire_job j m) else (True, m))"

record start_result =
  res_name :: string
  res_tool :: string
  res_interval_sec :: int
  res_ttl_sec :: int
  res_valid_until_unix :: int
  res_first :: "json option"

text \<open>
  \<open>start({name, tool, interval_sec, ttl_sec, valid_until_unix, args})\<close>, in two parts.
  \<open>start_job\<close> is its validation, up to the job object it builds (the check that the
  cloned args are an object cannot fail and is left out).
\<close>

definition start_job ::
  "'w env \<Rightarrow> json \<Rightarrow> json \<Rightarrow> json \<Rightarrow> json \<Rightarrow> json \<Rightarrow> json \<Rightarrow> 'w \<Rightarrow> autopost \<Rightarrow> ap_error + job" where
  "start_job env name tool interval_sec ttl_sec valid_until_unix args w m =
     (let n = str_or_empty name in
      if n = [] then Inl NameRequired
      else if map_of (jobs m) n \<noteq> None then Inl (NameExists n)
      else
        let t = str_or_empty tool in
        if t \<noteq> ''intercomswap_offer_post'' \<and> t \<noteq> ''intercomswap_rfq_post'' then Inl ToolNotAllowed
        else
          case clampInt interval_sec (Some 1) (Some (24 * 3600)) of
            Inl e \<Rightarrow> Inl e
          | Inr ivl \<Rightarrow>
              (case (if jnullish ttl_sec then Inr None
                     else map_sum id Some (clampInt ttl_sec (Some 10) (Some (7 * 24 * 3600)))) of
                 Inl e \<Rightarrow> Inl e
               | Inr None \<Rightarrow> Inl TtlRequired
               | Inr (Some ttl) \<Rightarrow>
                   if ttl = 0 then Inl TtlRequired
                   else
                     let baseArgs = safeCloneArgs args;
                         nowSec = clock env w div 1000 in
                     (case (if jnullish valid_until_unix then Inr None
                            else map_sum id Some (clampInt valid_until_unix (Some 1) None)) of
                        Inl e \<Rightarrow> Inl e
                      | Inr raw \<Rightarrow>
                          let vu = (case raw of Some v \<Rightarrow> v | None \<Rightarrow> nowSec + ttl) in
                          if vu \<le> nowSec then Inl NotInFuture
                          else if vu - nowSec < 10 then Inl HorizonTooShort
                          else if vu - nowSec > 7 * 24 * 3600 then Inl HorizonTooLong
                          else
                            Inr \<lparr> job_name = n, job_tool = t, intervalSec = ivl, ttlSec = ttl,
                                  validUntilUnix = vu, job_args = baseArgs, runs = 0,
                                  startedAt = clock env w, lastRunAt = None, lastOk = None,
                                  lastError = None, job_timer = None \<rparr>)))"

text \<open>
  The rest of \<open>start\<close>: the first run, at once and before the job is registered, then
  \<open>setInterval\<close> and \<open>jobs.set\<close>. A failed first run is swallowed (\<open>first\<close> stays
  \<open>null\<close>); a first run that found the job expired returns its
  \<open>autopost_stopped\<close> object.
\<close>

definition start ::
  "'w env \<Rightarrow> json \<Rightarrow> json \<Rightarrow> json \<Rightarrow> json \<Rightarrow> json \<Rightarrow> json \<Rightarrow> 'w \<Rightarrow> autopost
     \<Rightarrow> ap_error + (start_result \<times> autopost \<times> 'w)" where
  "start env name tool interval_sec ttl_sec valid_until_unix args w m =
     (case start_job env name tool interval_sec ttl_sec valid_until_unix args w m of
        Inl e \<Rightarrow> Inl e
      | Inr jb \<Rightarrow>
          let j = length (heap m);
              r = runOnce env j w (m\<lparr> heap := heap m @ [jb] \<rparr>);
              first = (case fst r of
                         RunStopped \<Rightarrow> Some (JObj [(''type'', JStr ''autopost_stopped''),
                                                  (''name'', JStr (job_name jb)), (''ok'', JBool True),
                                                  (''reason'', JStr ''expired'')])
                       | RunOk out \<Rightarrow> Some out
                       | RunFailed err \<Rightarrow> None);
              m1 = fst (snd r);
              m2 = m1\<lparr> heap := (heap m1)[j := (heap m1 ! j)\<lparr> job_timer := Some j \<rparr>],
                       timers := timers m1 @ [j],
                       jobs := AList.update (job_name jb) j (jobs m1) \<rparr>
          in Inr (\<lparr> res_name = job_name jb, res_tool = job_tool jb,
                    res_interval_sec = intervalSec jb, res_ttl_sec = ttlSec jb,
                    res_valid_until_unix = validUntilUnix jb, res_first = first \<rparr>,
                  m2, snd (snd r)))"

text \<open>\<open>stop({name})\<close>; the flag is false for the reason \<open>not_found\<close>.\<close>

definition stop :: "json \<Rightarrow> autopost \<Rightarrow> ap_error + (bool \<times> autopost)" where
  "stop name m =
     (let n = str_or_empty name in
      if n = [] then Inl NameRequired
      else case map_of (jobs m) n of
             None \<Rightarrow> Inr (False, m)
           | Some j \<Rightarrow>
               Inr (True,
                    m\<lparr> timers := (case job_timer (heap m ! j) of Some t \<Rightarrow> removeAll t (timers m)
                                                               | None \<Rightarrow> timers m),
                       jobs := AList.delete n (jobs m) \<rparr>))"


text \<open>
  The histories of a manager: \<open>start\<close>, \<open>stop\<close>, a queued run of a job and a firing
  of its interval timer, each at the world of its moment. A timer fires only while it
  is armed. A call that throws leaves the manager as it was.
\<close>

datatype ap_event =
    EvStart json json json json json json
  | EvRun nat
  | EvTick nat
  | EvStop json

definition ap_step :: "'w env \<Rightarrow> ap_event \<Rightarrow> 'w \<Rightarrow> autopost \<Rightarrow> autopost" where
  "ap_step env ev w m =
     (case ev of
        EvStart name tool interval_sec ttl_sec valid_until_unix args \<Rightarrow>
          (case start env name tool interval_sec ttl_sec valid_until_unix args w m of
             Inl e \<Rightarrow> m
           | Inr r \<Rightarrow> fst (snd r))
      | EvRun j \<Rightarrow> if j < length (heap m) then fst (snd (runOnce env j w m)) else m
      | EvTick j \<Rightarrow>
          if j < length (heap m) \<and> job_timer (heap m ! j) = Some j \<and> j \<in> set (timers m)
          then snd (intervalTick env j w m) else m
      | EvStop name \<Rightarrow> (case stop name m of Inl e \<Rightarrow> m | Inr r \<Rightarrow> snd r))"

fun ap_run :: "'w env \<Rightarrow> (ap_event \<times> 'w) list \<Rightarrow> autopost \<Rightarrow> autopost" where
  "ap_run env [] m = m"
| "ap_run env (e # es) m = ap_run env es (ap_step env (fst e) (snd e) m)"

text \<open>
  What a publish must look like: it belongs to a job of the heap, names the job's tool,
  carries the job's \<open>validUntilUnix\<close>, was made before that moment, and for an offer
  has no \<open>ttl_sec\<close>.
\<close>

definition publish_ok :: "job list \<Rightarrow> ap_call \<Rightarrow> bool" where
  "publish_ok h c =
     (call_job c < length h \<and>
      call_tool c = job_tool (h ! call_job c) \<and>
      obj_get (call_args c) ''valid_until_unix'' = JNum (validUntilUnix (h ! call_job c)) \<and>
      call_at c div 1000 < validUntilUnix (h ! call_job c) \<and>
      (if call_tool c = ''intercomswap_offer_post'' then obj_get (call_args c) ''ttl_sec'' = JUndef
       else call_tool c = ''intercomswap_rfq_post''))"

text \<open>The fields of a job that a publish depends on.\<close>

definition job_fixed :: "job \<Rightarrow> string \<times> int" where
  "job_fixed jb = (job_tool jb, validUntilUnix jb)"

text \<open>One heap extends another: the jobs it had keep their tool and their expiry.\<close>

definition heap_ext :: "job list \<Rightarrow> job list \<Rightarrow> bool" where
  "heap_ext h h' = (length h \<le> length h' \<and> (\<forall>i<length h. job_fixed (h' ! i) = job_fixed (h ! i)))"

text \<open>
  The invariant of a manager: every job has one of the two tools \<open>start\<close> allows, and
  every publish of the history is as \<open>publish_ok\<close> says.
\<close>

definition jobs_ok :: "autopost \<Rightarrow> bool" where
  "jobs_ok m =
     (list_all (\<lambda>jb. job_tool jb = ''intercomswap_offer_post'' \<or> job_tool jb = ''intercomswap_rfq_post'')
        (heap m) \<and>
      list_all (publish_ok (heap m)) (calls m))"

text \<open>
  A world for the examples: the world is the clock, and every tool call succeeds and
  takes one millisecond.
\<close>

definition demo_env :: "int env" where
  "demo_env = \<lparr> clock = (\<lambda>w. w), runTool = (\<lambda>t a w. (Inr (JObj [(''type'', JStr ''ok'')]), w + 1)) \<rparr>"

text \<open>The same world with every tool call rejected.\<close>

definition failing_env :: "int env" where
  "failing_env = \<lparr> clock = (\<lambda>w. w), runTool = (\<lambda>t a w. (Inl ''timeout'', w + 1)) \<rparr>"

text \<open>
  An example history in that world: an offer job started at second 1000 with a
  \<open>ttl_sec\<close> of 10, a queued run at second 1005 and a timer tick at second 1010.
  \<open>demo_mgr\<close> is the manager after the start.
\<close>

definition demo_history :: "(ap_event \<times> int) list" where
  "demo_history =
     [(EvStart (JStr ''job1'') (JStr ''intercomswap_offer_post'') (JNum 5) (JNum 10) JUndef
         (JObj [(''channel'', JStr ''c''), (''ttl_sec'', JNum 10)]), 1000000),
      (EvRun 0, 1005000),
      (EvTick 0, 1010000)]"

definition demo_mgr :: autopost where
  "demo_mgr =
     \<lparr> jobs = [(''job1'', 0)],
       heap = [\<lparr> job_name = ''job1'', job_tool = ''intercomswap_offer_post'', intervalSec = 5,
                 ttlSec = 10, validUntilUnix = 1010,
                 job_args = JObj [(''channel'', JStr ''c''), (''ttl_sec'', JNum 10)], runs = 1,
                 startedAt = 1000000, lastRunAt = Some 1000000, lastOk = Some True,
                 lastError = None, job_timer = Some 0 \<rparr>],
       timers = [0],
       calls = [\<lparr> call_job = 0, call_at = 1000000, call_tool = ''intercomswap_offer_post'',
                  call_args = JObj [(''channel'', JStr ''c''), (''valid_until_unix'', JNum 1010)] \<rparr>] \<rparr>"

section \<open>The trade receipts store (src/receipts/store.js)\<close>

text \<open>
  A column of the \<open>trades\<close> table holds \<open>NULL\<close>, an integer or a text. A row is the
  list of its columns in the order of the table; the table is the list of its rows by
  \<open>trade_id\<close> (the primary key), in the order of insertion.
\<close>

datatype sqlval = SNull | SInt int | SText string

type_synonym trade_row = "(string \<times> sqlval) list"

type_synonym store = "(string \<times> trade_row) list"

datatype st_error =
    TradeIdRequired
  | InvalidInt json
  | NotHex32 string
  | BindUndefined
  | NotNullFailed string





definition col :: "trade_row \<Rightarrow> string \<Rightarrow> sqlval" where
  "col r c = (case map_of r c of Some v \<Rightarrow> v | None \<Rightarrow> SNull)"


text \<open>
  Binding a JavaScript value to a statement parameter, after \<open>upsertTrade\<close> has
  replaced \<open>undefined\<close> by \<open>null\<close>; the coercions only produce \<open>null\<close>, numbers
  and strings.
\<close>

fun json_to_sql :: "json \<Rightarrow> sqlval" where
  "json_to_sql (JNum n) = SInt n"
| "json_to_sql (JStr s) = SText s"
| "json_to_sql v = SNull"





definition coerceHex32 :: "json \<Rightarrow> string \<Rightarrow> st_error + json" where
  "coerceHex32 v label =
     (if v = JUndef then Inr JUndef
      else if v = JNull then Inr JNull
      else let s = toLowerCase (trim (String v))
           in if is_hex_n 64 s then Inr (JStr s) else Inl (NotHex32 label))"






definition getTrade :: "json \<Rightarrow> store \<Rightarrow> st_error + trade_row option" where
  "getTrade tradeId db =
     (let tid = str_or_empty tradeId
      in if tid = [] then Inl TradeIdRequired else Inr (map_of db tid))"

text \<open>
  \<open>getTradeByPaymentHash(paymentHashHex)\<close>. \<open>coerceHex32\<close> passes \<open>undefined\<close> and
  \<open>null\<close> through: the bindings of node:sqlite reject \<open>undefined\<close> (as the comment in
  \<open>upsertTrade\<close> says), and \<open>ln_payment_hash_hex = NULL\<close> is true of no row. The
  statement returns the first row that matches.
\<close>

definition getTradeByPaymentHash :: "json \<Rightarrow> store \<Rightarrow> st_error + trade_row option" where
  "getTradeByPaymentHash paymentHashHex db =
     (case coerceHex32 paymentHashHex ''paymentHashHex'' of
        Inl e \<Rightarrow> Inl e
      | Inr h \<Rightarrow>
          if h = JUndef then Inl BindUndefined
          else if h = JNull then Inr None
          else Inr (map_option snd
                 (find (\<lambda>ir. col (snd ir) ''ln_payment_hash_hex'' = json_to_sql h) db)))"







text \<open>What \<open>coerceHex32\<close> tests and returns for a value that is neither \<open>undefined\<close> nor \<open>null\<close>.\<close>

definition norm_hex :: "json \<Rightarrow> string" where
  "norm_hex v = toLowerCase (trim (String v))"

text \<open>
  An example: the table after \<open>upsertTrade('t1', {state: 'ln_paid', ln_preimage_hex: H})\<close>
  on the empty table at the clock 100.
\<close>

definition demo_preimage :: string where
  "demo_preimage = ''0123456789abcdef0123456789abcdef0123456789abcdef0123456789abcdef''"

definition demo_row :: trade_row where
  "demo_row =
     [(''trade_id'', SText ''t1''), (''role'', SNull), (''rfq_channel'', SNull),
      (''swap_channel'', SNull), (''maker_peer'', SNull), (''taker_peer'', SNull),
      (''btc_sats'', SNull), (''usdt_amount'', SNull), (''sol_mint'', SNull),
      (''sol_program_id'', SNull), (''sol_recipient'', SNull), (''sol_refund'', SNull),
      (''sol_escrow_pda'', SNull), (''sol_vault_ata'', SNull), (''sol_refund_after_unix'', SNull),
      (''ln_invoice_bolt11'', SNull), (''ln_payment_hash_hex'', SNull),
      (''ln_preimage_hex'', SText demo_preimage), (''state'', SText ''ln_paid''),
      (''created_at'', SInt 100), (''updated_at'', SInt 100), (''last_error'', SNull)]"


text \<open>A table whose row has a payment hash, and the same hash in upper case.\<close>

definition demo_hash :: string where
  "demo_hash = ''00112233445566778899aabbccddeeff00112233445566778899aabbccddeeff''"

definition demo_hash_upper :: string where
  "demo_hash_upper = ''00112233445566778899AABBCCDDEEFF00112233445566778899AABBCCDDEEFF''"

definition demo_hash_db :: store where
  "demo_hash_db =
     [(''t1'', AList.update ''ln_payment_hash_hex'' (SText demo_hash) demo_row)]"

section \<open>The settlement driver (tradeAuto.js)\<close>

subsection \<open>Reading events\<close>

text \<open>
  An event of the sidechannel log is a JSON value with the fields \<open>kind\<close>,
  \<open>trade_id\<close>, \<open>channel\<close>, \<open>ts\<close>, \<open>message\<close> and the markers of a local
  origin; its \<open>message\<close> is the envelope.
\<close>

definition envelopeKind :: "json \<Rightarrow> string" where
  "envelopeKind evt =
     trim (String (jor (jor (obj_get evt ''kind'') (obj_get (obj_get evt ''message'') ''kind'')) (JStr [])))"

definition envelopeTradeId :: "json \<Rightarrow> string" where
  "envelopeTradeId evt =
     trim (String (jor (jor (obj_get evt ''trade_id'') (obj_get (obj_get evt ''message'') ''trade_id''))
                     (JStr [])))"

definition envelopeSigner :: "json \<Rightarrow> string" where
  "envelopeSigner evt =
     (let s = toLowerCase (trim (String (jor (jor (obj_get (obj_get evt ''message'') ''signer'')
                                                 (obj_get evt ''signer'')) (JStr []))))
      in if is_hex_n_i 64 s then s else [])"

definition envelopeSig :: "json \<Rightarrow> string" where
  "envelopeSig evt =
     (let s = toLowerCase (trim (String (jor (obj_get (obj_get evt ''message'') ''sig'') (JStr []))))
      in if is_hex_n_i 128 s then s else [])"

text \<open>\<open>eventTs(evt)\<close> at the clock \<open>now\<close> (\<open>Date.now()\<close>).\<close>

definition eventTs :: "int \<Rightarrow> json \<Rightarrow> int" where
  "eventTs now evt = (case obj_get evt ''ts'' of JNum n \<Rightarrow> if n > 0 then n else now | _ \<Rightarrow> now)"

definition isLocalEvent :: "json \<Rightarrow> bool" where
  "isLocalEvent evt =
     (truthy (obj_get evt ''local'') \<or>
      toLowerCase (str_or_empty (obj_get evt ''dir'')) = ''out'' \<or>
      toLowerCase (str_or_empty (obj_get evt ''origin'')) = ''local'')"

definition stripSignature :: "json \<Rightarrow> json" where
  "stripSignature envelope = obj_delete ''signer'' (obj_delete ''sig'' (jor envelope (JObj [])))"

definition isEventStale :: "int \<Rightarrow> json \<Rightarrow> int \<Rightarrow> bool" where
  "isEventStale now evt maxAgeMs = (now - eventTs now evt > maxAgeMs)"

text \<open>\<open>clampInt(n, {min, max, fallback})\<close> of tradeAuto.js; \<open>None\<close> is a value that is not finite.\<close>

definition clampInt_ta :: "int option \<Rightarrow> int \<Rightarrow> int \<Rightarrow> int \<Rightarrow> int" where
  "clampInt_ta n lo hi fallback = max lo (min hi (case n of Some v \<Rightarrow> v | None \<Rightarrow> fallback))"

subsection \<open>Matching an RFQ against the local offers\<close>

text \<open>
  The ceilings and window bounds as \<open>matchOfferForRfq\<close> reads them from a body:
  \<open>Math.max(0, Math.min(hi, toIntOrNull(v) ?? hi))\<close> for a fee ceiling and
  \<open>Math.max(3600, Math.min(7 * 24 * 3600, toIntOrNull(v) ?? dflt))\<close> for a bound of the
  refund window.
\<close>

definition fee_cap :: "int \<Rightarrow> json \<Rightarrow> int" where
  "fee_cap hi v = max 0 (min hi (case toIntOrNull v of Some n \<Rightarrow> n | None \<Rightarrow> hi))"

definition win_bound :: "int \<Rightarrow> json \<Rightarrow> int" where
  "win_bound dflt v = max 3600 (min (7 * 24 * 3600) (case toIntOrNull v of Some n \<Rightarrow> n | None \<Rightarrow> dflt))"

definition maxPlatform :: "json \<Rightarrow> int" where
  "maxPlatform b = fee_cap 500 (obj_get b ''max_platform_fee_bps'')"

definition maxTrade :: "json \<Rightarrow> int" where
  "maxTrade b = fee_cap 1000 (obj_get b ''max_trade_fee_bps'')"

definition maxTotal :: "json \<Rightarrow> int" where
  "maxTotal b = fee_cap 1500 (obj_get b ''max_total_fee_bps'')"

definition minWin :: "json \<Rightarrow> int" where
  "minWin b = win_bound 3600 (obj_get b ''min_sol_refund_window_sec'')"

definition maxWin :: "json \<Rightarrow> int" where
  "maxWin b = win_bound (7 * 24 * 3600) (obj_get b ''max_sol_refund_window_sec'')"

text \<open>\<open>msg?.body && typeof msg.body === 'object' ? msg.body : null\<close>.\<close>

definition body_of :: "json \<Rightarrow> json option" where
  "body_of msg = (let b = obj_get msg ''body'' in if isObjectLike b then Some b else None)"

text \<open>The first element of a list for which a partial function has a result.\<close>

fun first_some :: "('a \<Rightarrow> 'b option) \<Rightarrow> 'a list \<Rightarrow> 'b option" where
  "first_some f [] = None"
| "first_some f (x # xs) = (case f x of Some y \<Rightarrow> Some y | None \<Rightarrow> first_some f xs)"

text \<open>
  The body of the inner loop of \<open>matchOfferForRfq\<close>: the window for one offer line,
  \<open>None\<close> where the loop continues.
\<close>

definition match_line :: "json \<Rightarrow> json \<Rightarrow> int option" where
  "match_line rfqBody lineRaw =
     (if \<not> isObject lineRaw then None
      else
        case toIntOrNull (obj_get lineRaw ''btc_sats'') of
          None \<Rightarrow> None
        | Some lineBtc \<Rightarrow>
            let lineUsdt = str_or_empty (obj_get lineRaw ''usdt_amount'') in
            if lineBtc < 1 \<or> \<not> is_digits lineUsdt then None
            else if Some lineBtc \<noteq> toIntOrNull (obj_get rfqBody ''btc_sats'') \<or>
                    lineUsdt \<noteq> str_or_empty (obj_get rfqBody ''usdt_amount'') then None
            else if maxPlatform lineRaw > maxPlatform rfqBody \<or> maxTrade lineRaw > maxTrade rfqBody \<or>
                    maxTotal lineRaw > maxTotal rfqBody then None
            else
              let overlapMin = max (minWin rfqBody) (minWin lineRaw);
                  overlapMax = min (maxWin rfqBody) (maxWin lineRaw)
              in if overlapMin > overlapMax then None
                 else
                   let w0 = 72 * 3600;
                       w1 = (if w0 < overlapMin then overlapMin else w0);
                       w2 = (if w1 > overlapMax then overlapMax else w1)
                   in Some w2)"

text \<open>The lines of an offer event that the outer loop goes on to try, at the clock \<open>nowSec\<close>.\<close>

definition offer_lines :: "int \<Rightarrow> string \<Rightarrow> json \<Rightarrow> json list" where
  "offer_lines nowSec rfqChannel offerEvt =
     (case body_of (obj_get offerEvt ''message'') of
        None \<Rightarrow> []
      | Some body \<Rightarrow>
          let validUntil = toIntOrNull (obj_get body ''valid_until_unix'');
              rfqChannels = (case obj_get body ''rfq_channels'' of
                               JArr cs \<Rightarrow> filter (\<lambda>c. c \<noteq> []) (map str_or_empty cs)
                             | _ \<Rightarrow> [])
          in if (case validUntil of Some v \<Rightarrow> v \<le> nowSec | None \<Rightarrow> False) then []
             else if rfqChannels \<noteq> [] \<and> rfqChannel \<noteq> [] \<and> rfqChannel \<notin> set rfqChannels then []
             else (case obj_get body ''offers'' of JArr ls \<Rightarrow> ls | _ \<Rightarrow> []))"

text \<open>\<open>matchOfferForRfq({rfqEvt, myOfferEvents})\<close>: the \<open>solRefundWindowSec\<close> of the match.\<close>

definition matchOfferForRfq :: "int \<Rightarrow> json \<Rightarrow> json list \<Rightarrow> int option" where
  "matchOfferForRfq nowSec rfqEvt myOfferEvents =
     (case body_of (obj_get rfqEvt ''message'') of
        None \<Rightarrow> None
      | Some rfqBody \<Rightarrow>
          let rfqBtc = toIntOrNull (obj_get rfqBody ''btc_sats'');
              rfqUsdt = str_or_empty (obj_get rfqBody ''usdt_amount'')
          in if (case rfqBtc of None \<Rightarrow> True | Some b \<Rightarrow> b < 1) \<or> \<not> is_digits rfqUsdt then None
             else if minWin rfqBody > maxWin rfqBody then None
             else first_some (match_line rfqBody)
                    (concat (map (offer_lines nowSec (str_or_empty (obj_get rfqEvt ''channel'')))
                               myOfferEvents)))"










subsection \<open>The state of the driver\<close>

text \<open>The options \<open>start\<close> has normalised (\<open>this.opts\<close>); an empty \<open>usdt_mint\<close> is \<open>null\<close>.\<close>

record ta_opts =
  max_trades :: int
  event_max_age_ms :: int
  ln_liquidity_mode :: string
  usdt_mint :: string
  default_sol_refund_window_sec :: int
  welcome_ttl_sec :: int
  enable_quote_from_offers :: bool
  enable_accept_quotes :: bool
  enable_invite_from_accepts :: bool
  enable_join_invites :: bool
  enable_settlement :: bool
  sol_cu_limit :: "int option"
  sol_cu_price :: "int option"

text \<open>
  The caches of a \<open>TradeAutoManager\<close>. A JavaScript \<open>Set\<close> or \<open>Map\<close> keeps its
  entries in the order of insertion, which the pruning by size relies on: a \<open>Set\<close> is a
  list without repetition, a \<open>Map\<close> an association list. \<open>tool_log\<close> is the history
  of the tools the driver has invoked, with their args: a ghost field. The trace ring
  buffer and the logger are left out; nothing reads them back.
\<close>

record tradeauto =
  opts :: ta_opts
  dedupeMax :: int
  stageMax :: int
  preimageMax :: int
  lockMaxAgeMs :: int
  doneMaxAgeMs :: int
  autoQuotedRfqSig :: "string list"
  autoAcceptedQuoteSig :: "string list"
  autoAcceptedTradeLock :: "(string \<times> int) list"
  autoInvitedAcceptSig :: "string list"
  autoJoinedInviteSig :: "string list"
  stageDone :: "(string \<times> int) list"
  stageInFlight :: "string list"
  stageRetryAfter :: "(string \<times> int) list"
  tradePreimage :: "(string \<times> string) list"
  stats_actions :: nat
  tool_log :: "(string \<times> json) list"

definition set_add :: "'a \<Rightarrow> 'a list \<Rightarrow> 'a list" where
  "set_add x xs = (if x \<in> set xs then xs else xs @ [x])"

text \<open>
  \<open>pruneSetByLimit\<close> and \<open>pruneMapByLimit\<close>: the oldest entries go until at most
  \<open>Math.max(1, Math.trunc(Number(limit) || 1))\<close> are left.
\<close>

definition pruneByLimit :: "'a list \<Rightarrow> int \<Rightarrow> 'a list" where
  "pruneByLimit xs limit = drop (length xs - nat (max 1 limit)) xs"

definition startsWith :: "string \<Rightarrow> string \<Rightarrow> bool" where
  "startsWith s p = (take (length p) s = p)"

text \<open>\<open>this.runTool({tool, args})\<close> under \<open>_runToolWithTimeout\<close>, recorded in the log.\<close>

definition call_tool ::
  "'w env \<Rightarrow> string \<Rightarrow> json \<Rightarrow> 'w \<Rightarrow> tradeauto \<Rightarrow> (string + json) \<times> 'w \<times> tradeauto" where
  "call_tool env t a w s =
     (let r = runTool env t a w in (fst r, snd r, s\<lparr> tool_log := tool_log s @ [(t, a)] \<rparr>))"

definition canRunStage :: "int \<Rightarrow> string \<Rightarrow> tradeauto \<Rightarrow> bool" where
  "canRunStage now stageKey s =
     (stageKey \<noteq> [] \<and> map_of (stageDone s) stageKey = None \<and> stageKey \<notin> set (stageInFlight s) \<and>
      now \<ge> (case map_of (stageRetryAfter s) stageKey of Some t \<Rightarrow> t | None \<Rightarrow> 0))"

definition markStageInFlight :: "string \<Rightarrow> tradeauto \<Rightarrow> tradeauto" where
  "markStageInFlight stageKey s =
     (if stageKey = [] then s else s\<lparr> stageInFlight := set_add stageKey (stageInFlight s) \<rparr>)"

definition markStageSuccess :: "int \<Rightarrow> string \<Rightarrow> tradeauto \<Rightarrow> tradeauto" where
  "markStageSuccess now stageKey s =
     (if stageKey = [] then s
      else s\<lparr> stageInFlight := removeAll stageKey (stageInFlight s),
              stageRetryAfter := AList.delete stageKey (stageRetryAfter s),
              stageDone := AList.update stageKey now (stageDone s) \<rparr>)"

definition markStageRetry :: "int \<Rightarrow> string \<Rightarrow> int \<Rightarrow> tradeauto \<Rightarrow> tradeauto" where
  "markStageRetry now stageKey cooldownMs s =
     (if stageKey = [] then s
      else s\<lparr> stageInFlight := removeAll stageKey (stageInFlight s),
              stageRetryAfter := AList.update stageKey
                 (now + max 1000 (if cooldownMs = 0 then 1000 else cooldownMs)) (stageRetryAfter s) \<rparr>)"

definition eventRetryKey :: "string \<Rightarrow> string \<Rightarrow> string" where
  "eventRetryKey flow sig = ''evt:'' @ flow @ '':'' @ sig"

definition canRunEvent :: "int \<Rightarrow> string \<Rightarrow> string \<Rightarrow> tradeauto \<Rightarrow> bool" where
  "canRunEvent now flow sig s =
     (sig \<noteq> [] \<and>
      now \<ge> (case map_of (stageRetryAfter s) (eventRetryKey flow sig) of Some t \<Rightarrow> t | None \<Rightarrow> 0))"

definition markEventRetry :: "int \<Rightarrow> string \<Rightarrow> string \<Rightarrow> int \<Rightarrow> tradeauto \<Rightarrow> tradeauto" where
  "markEventRetry now flow sig cooldownMs s =
     (if sig = [] then s
      else s\<lparr> stageRetryAfter := AList.update (eventRetryKey flow sig)
                 (now + max 1000 (if cooldownMs = 0 then 1000 else cooldownMs)) (stageRetryAfter s) \<rparr>)"

definition clearEventRetry :: "string \<Rightarrow> string \<Rightarrow> tradeauto \<Rightarrow> tradeauto" where
  "clearEventRetry flow sig s =
     (if sig = [] then s
      else s\<lparr> stageRetryAfter := AList.delete (eventRetryKey flow sig) (stageRetryAfter s) \<rparr>)"

definition pruneTradeCachesById :: "string \<Rightarrow> tradeauto \<Rightarrow> tradeauto" where
  "pruneTradeCachesById tradeId s =
     (if tradeId = [] then s
      else s\<lparr> autoAcceptedTradeLock := AList.delete tradeId (autoAcceptedTradeLock s),
              tradePreimage := AList.delete tradeId (tradePreimage s),
              stageDone := filter (\<lambda>kv. \<not> startsWith (fst kv) (tradeId @ '':'')) (stageDone s),
              stageInFlight := filter (\<lambda>k. \<not> startsWith k (tradeId @ '':'')) (stageInFlight s),
              stageRetryAfter :=
                filter (\<lambda>kv. \<not> startsWith (fst kv) (tradeId @ '':'')) (stageRetryAfter s) \<rparr>)"

text \<open>\<open>_pruneCaches({terminalTradeIds})\<close> at the clock \<open>now\<close>.\<close>

definition pruneCaches :: "int \<Rightarrow> string list \<Rightarrow> tradeauto \<Rightarrow> tradeauto" where
  "pruneCaches now terminal s0 =
     (let s1 = fold (\<lambda>tid. pruneTradeCachesById (trim tid)) terminal s0;
          s2 = s1\<lparr> autoAcceptedTradeLock :=
                     filter (\<lambda>kv. fst kv \<noteq> [] \<and> \<not> (now - snd kv > lockMaxAgeMs s1))
                       (autoAcceptedTradeLock s1),
                   stageDone := filter (\<lambda>kv. \<not> (now - snd kv > doneMaxAgeMs s1)) (stageDone s1),
                   stageRetryAfter :=
                     filter (\<lambda>kv. \<not> (now - snd kv > doneMaxAgeMs s1)) (stageRetryAfter s1) \<rparr>
      in s2\<lparr> autoQuotedRfqSig := pruneByLimit (autoQuotedRfqSig s2) (dedupeMax s2),
             autoAcceptedQuoteSig := pruneByLimit (autoAcceptedQuoteSig s2) (dedupeMax s2),
             autoAcceptedTradeLock :=
               pruneByLimit (autoAcceptedTradeLock s2)
                 (max (if max_trades (opts s2) = 0 then 120 else max_trades (opts s2)) (preimageMax s2)),
             autoInvitedAcceptSig := pruneByLimit (autoInvitedAcceptSig s2) (dedupeMax s2),
             autoJoinedInviteSig := pruneByLimit (autoJoinedInviteSig s2) (dedupeMax s2),
             stageDone := pruneByLimit (stageDone s2) (stageMax s2),
             stageInFlight := pruneByLimit (stageInFlight s2) (stageMax s2),
             stageRetryAfter := pruneByLimit (stageRetryAfter s2) (stageMax s2),
             tradePreimage := pruneByLimit (tradePreimage s2) (preimageMax s2) \<rparr>)"

subsection \<open>The contexts built from the events\<close>

text \<open>An absent envelope is \<open>JNull\<close>, as in the source.\<close>

record negotiation =
  neg_rfq :: json
  neg_quote :: json
  neg_quote_accept :: json
  neg_swap_invite :: json
  neg_swap_channel :: string

record trade_ctx =
  tc_trade_id :: string
  tc_channel :: string
  tc_last_ts :: int
  tc_terms :: json
  tc_accept :: json
  tc_invoice :: json
  tc_escrow :: json
  tc_ln_paid :: json
  tc_claimed :: json
  tc_refunded :: json
  tc_canceled :: json

record my_quote =
  mq_event :: json
  mq_envelope :: json
  mq_channel :: string

record contexts =
  myRfqTradeIds :: "string list"
  myQuoteById :: "(string \<times> my_quote) list"
  myOfferEvents :: "json list"
  quoteEvents :: "json list"
  acceptEvents :: "json list"
  inviteEvents :: "json list"
  swapNegotiationByTrade :: "(string \<times> negotiation) list"
  swapTradeContexts :: "trade_ctx list"
  terminalTradeIds :: "string list"

definition contexts_init :: contexts where
  "contexts_init =
     \<lparr> myRfqTradeIds = [], myQuoteById = [], myOfferEvents = [], quoteEvents = [],
       acceptEvents = [], inviteEvents = [], swapNegotiationByTrade = [],
       swapTradeContexts = [], terminalTradeIds = [] \<rparr>"

definition neg_new :: negotiation where
  "neg_new = \<lparr> neg_rfq = JNull, neg_quote = JNull, neg_quote_accept = JNull,
               neg_swap_invite = JNull, neg_swap_channel = [] \<rparr>"

definition neg_note :: "string \<Rightarrow> json \<Rightarrow> negotiation \<Rightarrow> negotiation" where
  "neg_note kind msg n =
     (if kind = ''swap.rfq'' \<and> \<not> truthy (neg_rfq n) then n\<lparr> neg_rfq := msg \<rparr>
      else if kind = ''swap.quote'' \<and> \<not> truthy (neg_quote n) then n\<lparr> neg_quote := msg \<rparr>
      else if kind = ''swap.quote_accept'' \<and> \<not> truthy (neg_quote_accept n)
      then n\<lparr> neg_quote_accept := msg \<rparr>
      else if kind = ''swap.swap_invite''
      then let n1 = (if \<not> truthy (neg_swap_invite n) then n\<lparr> neg_swap_invite := msg \<rparr> else n);
               ch = str_or_empty (obj_get (obj_get msg ''body'') ''swap_channel'')
           in if ch \<noteq> [] then n1\<lparr> neg_swap_channel := ch \<rparr> else n1
      else n)"

definition tc_new :: "string \<Rightarrow> string \<Rightarrow> trade_ctx" where
  "tc_new tradeId ch =
     \<lparr> tc_trade_id = tradeId, tc_channel = ch, tc_last_ts = 0, tc_terms = JNull, tc_accept = JNull,
       tc_invoice = JNull, tc_escrow = JNull, tc_ln_paid = JNull, tc_claimed = JNull,
       tc_refunded = JNull, tc_canceled = JNull \<rparr>"

definition tc_note :: "int \<Rightarrow> string \<Rightarrow> string \<Rightarrow> json \<Rightarrow> trade_ctx \<Rightarrow> trade_ctx" where
  "tc_note ts ch kind msg c0 =
     (let c1 = (if ts > tc_last_ts c0 then c0\<lparr> tc_last_ts := ts \<rparr> else c0);
          c = (if ch \<noteq> [] then c1\<lparr> tc_channel := ch \<rparr> else c1)
      in if kind = ''swap.terms'' then c\<lparr> tc_terms := msg \<rparr>
         else if kind = ''swap.accept'' then c\<lparr> tc_accept := msg \<rparr>
         else if kind = ''swap.ln_invoice'' then c\<lparr> tc_invoice := msg \<rparr>
         else if kind = ''swap.sol_escrow_created'' then c\<lparr> tc_escrow := msg \<rparr>
         else if kind = ''swap.ln_paid'' then c\<lparr> tc_ln_paid := msg \<rparr>
         else if kind = ''swap.sol_claimed'' then c\<lparr> tc_claimed := msg \<rparr>
         else if kind = ''swap.sol_refunded'' then c\<lparr> tc_refunded := msg \<rparr>
         else if kind = ''swap.cancel'' then c\<lparr> tc_canceled := msg \<rparr>
         else c)"

text \<open>
  The id of a quote: the hash of the unsigned envelope, and the fallback of the
  \<open>catch\<close> when hashing throws. \<open>hashUnsignedEnvelope\<close> is imported from
  \<open>../swap/hash.js\<close> and is the parameter \<open>hashf\<close> (\<open>None\<close> when it throws).
\<close>

definition quote_id :: "(json \<Rightarrow> string option) \<Rightarrow> int \<Rightarrow> json \<Rightarrow> json \<Rightarrow> string" where
  "quote_id hashf now e msg =
     (case hashf (stripSignature msg) of
        Some h \<Rightarrow> toLowerCase (trim h)
      | None \<Rightarrow>
          str_or_empty (obj_get msg ''trade_id'') @ '':'' @
          str_or_empty (obj_get (obj_get msg ''body'') ''rfq_id'') @ '':'' @ int_str (eventTs now e))"

text \<open>The body of the loop of \<open>_buildContexts\<close>, for one event.\<close>

definition build_step ::
  "(json \<Rightarrow> string option) \<Rightarrow> int \<Rightarrow> string \<Rightarrow> json \<Rightarrow> contexts \<Rightarrow> contexts" where
  "build_step hashf now localPeer e c =
     (let kind = envelopeKind e in
      if \<not> startsWith kind ''swap.'' then c
      else if \<not> isObjectLike (obj_get e ''message'') then c
      else
        let msg = obj_get e ''message'';
            tradeId = envelopeTradeId e;
            signer = envelopeSigner e;
            local = (isLocalEvent e \<or> (localPeer \<noteq> [] \<and> signer = localPeer));
            c1 = (if kind = ''swap.rfq'' \<and> local \<and> tradeId \<noteq> []
                  then c\<lparr> myRfqTradeIds := set_add tradeId (myRfqTradeIds c) \<rparr> else c);
            c2 = (if kind = ''swap.quote''
                  then if local
                       then c1\<lparr> myQuoteById :=
                                   AList.update (quote_id hashf now e msg)
                                     \<lparr> mq_event = e, mq_envelope = msg,
                                       mq_channel = str_or_empty (obj_get e ''channel'') \<rparr>
                                     (myQuoteById c1) \<rparr>
                       else c1\<lparr> quoteEvents := quoteEvents c1 @ [e] \<rparr>
                  else c1);
            c3 = (if kind = ''swap.svc_announce'' \<and> local
                  then c2\<lparr> myOfferEvents := myOfferEvents c2 @ [e] \<rparr> else c2);
            c4 = (if kind = ''swap.quote_accept'' \<and> \<not> local
                  then c3\<lparr> acceptEvents := acceptEvents c3 @ [e] \<rparr> else c3);
            c5 = (if kind = ''swap.swap_invite'' \<and> \<not> local
                  then c4\<lparr> inviteEvents := inviteEvents c4 @ [e] \<rparr> else c4);
            c6 = (if tradeId \<noteq> []
                  then c5\<lparr> swapNegotiationByTrade :=
                              AList.update tradeId
                                (neg_note kind msg
                                   (case map_of (swapNegotiationByTrade c5) tradeId of
                                      Some n \<Rightarrow> n | None \<Rightarrow> neg_new))
                                (swapNegotiationByTrade c5) \<rparr>
                  else c5);
            ch = str_or_empty (obj_get e ''channel'')
        in if tradeId \<noteq> [] \<and> startsWith ch ''swap:''
           then c6\<lparr> swapTradeContexts :=
                       map snd
                         (AList.update tradeId
                            (tc_note (eventTs now e) ch kind msg
                               (case map_of (map (\<lambda>t. (tc_trade_id t, t)) (swapTradeContexts c6)) tradeId of
                                  Some t \<Rightarrow> t | None \<Rightarrow> tc_new tradeId ch))
                            (map (\<lambda>t. (tc_trade_id t, t)) (swapTradeContexts c6))),
                     terminalTradeIds :=
                       (if kind = ''swap.sol_claimed'' \<or> kind = ''swap.sol_refunded'' \<or>
                           kind = ''swap.cancel''
                        then set_add tradeId (terminalTradeIds c6) else terminalTradeIds c6) \<rparr>
           else c6)"

text \<open>
  \<open>_buildContexts({events, localPeer})\<close>: the loop, then the trade contexts sorted by
  \<open>last_ts\<close>, newest first (the sort of an array is stable).
\<close>

definition buildContexts ::
  "(json \<Rightarrow> string option) \<Rightarrow> int \<Rightarrow> string \<Rightarrow> json list \<Rightarrow> contexts" where
  "buildContexts hashf now localPeer events =
     (let c = fold (build_step hashf now localPeer) events contexts_init
      in c\<lparr> swapTradeContexts := sort_key (\<lambda>t. - tc_last_ts t) (swapTradeContexts c) \<rparr>)"

subsection \<open>The pipelines of a tick\<close>

text \<open>
  A pipeline is a loop over its queue. Its state is the budget \<open>actionsLeft\<close>, the world
  and the caches; the loop body is a step function, folded over the queue. A
  \<open>break\<close> on an exhausted budget is a step that leaves the state as it is: the
  budget never grows, so every later step does the same.
\<close>

type_synonym 'w drv = "int \<times> 'w \<times> tradeauto"

definition acted :: "tradeauto \<Rightarrow> tradeauto" where
  "acted s = s\<lparr> stats_actions := stats_actions s + 1 \<rparr>"

text \<open>Quote-from-offer, for one RFQ event.\<close>

definition quote_step :: "'w env \<Rightarrow> contexts \<Rightarrow> string \<Rightarrow> json \<Rightarrow> 'w drv \<Rightarrow> 'w drv" where
  "quote_step env ctx localSolSigner rfqEvt d =
     (case d of (al, w, s) \<Rightarrow>
        if al \<le> 0 then d
        else if isLocalEvent rfqEvt then d
        else
          let sig = envelopeSig rfqEvt in
          if sig = [] \<or> sig \<in> set (autoQuotedRfqSig s) then d
          else if \<not> canRunEvent (clock env w) ''quote_from_offer'' sig s then d
          else
            case matchOfferForRfq (clock env w div 1000) rfqEvt (myOfferEvents ctx) of
              None \<Rightarrow> d
            | Some win \<Rightarrow>
                let ch = str_or_empty (obj_get rfqEvt ''channel'') in
                if ch = [] then d
                else
                  let r = call_tool env ''intercomswap_quote_post_from_rfq''
                            (JObj [(''channel'', JStr ch),
                                   (''rfq_envelope'', obj_get rfqEvt ''message''),
                                   (''trade_fee_collector'', JStr localSolSigner),
                                   (''sol_refund_window_sec'', JNum win),
                                   (''valid_for_sec'', JNum 180)]) w s;
                      w' = fst (snd r); s' = snd (snd r)
                  in case fst r of
                       Inr out \<Rightarrow>
                         (al - 1, w',
                          acted (pruneCaches (clock env w') []
                                   (clearEventRetry ''quote_from_offer'' sig
                                      (s'\<lparr> autoQuotedRfqSig := set_add sig (autoQuotedRfqSig s') \<rparr>))))
                     | Inl err \<Rightarrow>
                         (al, w', markEventRetry (clock env w') ''quote_from_offer'' sig 5000 s'))"

text \<open>Accept-quote, for one quote event.\<close>

definition accept_step :: "'w env \<Rightarrow> contexts \<Rightarrow> json \<Rightarrow> 'w drv \<Rightarrow> 'w drv" where
  "accept_step env ctx quoteEvt d =
     (case d of (al, w, s) \<Rightarrow>
        if al \<le> 0 then d
        else if isEventStale (clock env w) quoteEvt (event_max_age_ms (opts s)) then d
        else
          let sig = envelopeSig quoteEvt in
          if sig = [] \<or> sig \<in> set (autoAcceptedQuoteSig s) then d
          else if \<not> canRunEvent (clock env w) ''accept_quote'' sig s then d
          else
            let tradeId = envelopeTradeId quoteEvt in
            if tradeId = [] \<or> tradeId \<notin> set (myRfqTradeIds ctx) then d
            else if tradeId \<in> set (terminalTradeIds ctx) then d
            else if map_of (autoAcceptedTradeLock s) tradeId \<noteq> None then d
            else
              let r = call_tool env ''intercomswap_quote_accept''
                        (JObj [(''channel'', JStr (str_or_empty (obj_get quoteEvt ''channel''))),
                               (''quote_envelope'', obj_get quoteEvt ''message''),
                               (''ln_liquidity_mode'', JStr (ln_liquidity_mode (opts s)))]) w s;
                  w' = fst (snd r); s' = snd (snd r)
              in case fst r of
                   Inr out \<Rightarrow>
                     (al - 1, w',
                      acted (pruneCaches (clock env w') []
                               ((clearEventRetry ''accept_quote'' sig
                                   (s'\<lparr> autoAcceptedQuoteSig := set_add sig (autoAcceptedQuoteSig s') \<rparr>))
                                \<lparr> autoAcceptedTradeLock :=
                                    AList.update tradeId (clock env w') (autoAcceptedTradeLock s') \<rparr>)))
                 | Inl err \<Rightarrow>
                     (al, w', markEventRetry (clock env w') ''accept_quote'' sig 5000 s'))"

text \<open>
  The subscription to the swap channel that follows an invite or a join; it is inside
  the same \<open>try\<close>, after the signature is recorded and before the budget is charged.
\<close>

definition subscribe_swap ::
  "'w env \<Rightarrow> string \<Rightarrow> string \<Rightarrow> string \<Rightarrow> int \<Rightarrow> 'w \<Rightarrow> tradeauto \<Rightarrow> 'w drv" where
  "subscribe_swap env flow sig swapCh al w s =
     (if swapCh = [] then (al - 1, w, acted s)
      else
        let r = call_tool env ''intercomswap_sc_subscribe''
                  (JObj [(''channels'', JArr [JStr swapCh])]) w s;
            w' = fst (snd r); s' = snd (snd r)
        in case fst r of
             Inr out \<Rightarrow> (al - 1, w', acted s')
           | Inl err \<Rightarrow> (al, w', markEventRetry (clock env w') flow sig 5000 s'))"

text \<open>Invite-from-accept, for one \<open>quote_accept\<close> event.\<close>

definition invite_step :: "'w env \<Rightarrow> contexts \<Rightarrow> json \<Rightarrow> 'w drv \<Rightarrow> 'w drv" where
  "invite_step env ctx e d =
     (case d of (al, w, s) \<Rightarrow>
        if al \<le> 0 then d
        else if isEventStale (clock env w) e (event_max_age_ms (opts s)) then d
        else
          let sig = envelopeSig e in
          if sig = [] \<or> sig \<in> set (autoInvitedAcceptSig s) then d
          else if \<not> canRunEvent (clock env w) ''invite_from_accept'' sig s then d
          else
            case map_of (myQuoteById ctx)
                   (toLowerCase (str_or_empty
                      (obj_get (obj_get (obj_get e ''message'') ''body'') ''quote_id''))) of
              None \<Rightarrow> d
            | Some myQuote \<Rightarrow>
                let tradeId = envelopeTradeId e;
                    ch = trim (String (jor (jor (obj_get e ''channel'') (JStr (mq_channel myQuote)))
                                           (JStr [])));
                    r = call_tool env ''intercomswap_swap_invite_from_accept''
                          (JObj [(''channel'', JStr ch),
                                 (''accept_envelope'', obj_get e ''message''),
                                 (''quote_envelope'', mq_envelope myQuote),
                                 (''welcome_text'',
                                    JStr (if tradeId \<noteq> [] then ''Welcome to '' @ tradeId
                                          else ''Welcome to swap'')),
                                 (''ttl_sec'', JNum (welcome_ttl_sec (opts s)))]) w s;
                    w' = fst (snd r); s' = snd (snd r)
                in case fst r of
                     Inr out \<Rightarrow>
                       subscribe_swap env ''invite_from_accept'' sig
                         (str_or_empty (obj_get out ''swap_channel'')) al w'
                         (pruneCaches (clock env w') []
                            (clearEventRetry ''invite_from_accept'' sig
                               (s'\<lparr> autoInvitedAcceptSig := set_add sig (autoInvitedAcceptSig s') \<rparr>)))
                   | Inl err \<Rightarrow>
                       (al, w', markEventRetry (clock env w') ''invite_from_accept'' sig 5000 s'))"

text \<open>Join-invite, for one \<open>swap_invite\<close> event.\<close>

definition join_step :: "'w env \<Rightarrow> contexts \<Rightarrow> string \<Rightarrow> json \<Rightarrow> 'w drv \<Rightarrow> 'w drv" where
  "join_step env ctx localPeer e d =
     (case d of (al, w, s) \<Rightarrow>
        if al \<le> 0 then d
        else if isEventStale (clock env w) e (event_max_age_ms (opts s)) then d
        else
          let sig = envelopeSig e in
          if sig = [] \<or> sig \<in> set (autoJoinedInviteSig s) then d
          else if \<not> canRunEvent (clock env w) ''join_invite'' sig s then d
          else
            let tradeId = envelopeTradeId e;
                invitee = toLowerCase (str_or_empty
                            (obj_get (obj_get (obj_get (obj_get (obj_get e ''message'') ''body'')
                               ''invite'') ''payload'') ''inviteePubKey''))
            in if tradeId \<noteq> [] \<and> tradeId \<in> set (terminalTradeIds ctx) then d
               else if invitee \<noteq> [] \<and> localPeer \<noteq> [] \<and> invitee \<noteq> localPeer then d
               else
                 let r = call_tool env ''intercomswap_join_from_swap_invite''
                           (JObj [(''swap_invite_envelope'', obj_get e ''message'')]) w s;
                     w' = fst (snd r); s' = snd (snd r)
                 in case fst r of
                      Inr out \<Rightarrow>
                        subscribe_swap env ''join_invite'' sig
                          (trim (String (jor (jor (obj_get out ''swap_channel'')
                                   (obj_get (obj_get (obj_get e ''message'') ''body'') ''swap_channel''))
                                   (JStr []))))
                          al w'
                          (pruneCaches (clock env w') []
                             (clearEventRetry ''join_invite'' sig
                                (s'\<lparr> autoJoinedInviteSig := set_add sig (autoJoinedInviteSig s') \<rparr>)))
                    | Inl err \<Rightarrow>
                        (al, w', markEventRetry (clock env w') ''join_invite'' sig 5000 s'))"

subsection \<open>The settlement state machine\<close>

text \<open>\<open>isObject(x) ? x : null\<close>.\<close>

definition env_or_null :: "json \<Rightarrow> json" where
  "env_or_null x = (if isObject x then x else JNull)"

text \<open>\<open>isObject(x?.body) ? x.body : {}\<close>.\<close>

definition body_or_empty :: "json \<Rightarrow> json" where
  "body_or_empty x = (if isObject (obj_get x ''body'') then obj_get x ''body'' else JObj [])"

text \<open>The roles, as lines 920 to 923 compute them.\<close>

definition makerSigner :: "json \<Rightarrow> json \<Rightarrow> string" where
  "makerSigner termsEnv quoteEnv =
     toLowerCase (trim (String (jor (jor (obj_get termsEnv ''signer'') (obj_get quoteEnv ''signer''))
                                   (JStr []))))"

definition takerSigner :: "json \<Rightarrow> json \<Rightarrow> json \<Rightarrow> string" where
  "takerSigner acceptEnv quoteAcceptEnv rfqEnv =
     toLowerCase (trim (String (jor (jor (jor (obj_get acceptEnv ''signer'')
                                             (obj_get quoteAcceptEnv ''signer''))
                                        (obj_get rfqEnv ''signer'')) (JStr []))))"

definition iAmMaker :: "string \<Rightarrow> json \<Rightarrow> json \<Rightarrow> bool" where
  "iAmMaker localPeer termsEnv quoteEnv =
     (localPeer \<noteq> [] \<and> makerSigner termsEnv quoteEnv \<noteq> [] \<and>
      makerSigner termsEnv quoteEnv = localPeer)"

definition iAmTaker :: "string \<Rightarrow> json \<Rightarrow> json \<Rightarrow> json \<Rightarrow> string list \<Rightarrow> string \<Rightarrow> bool" where
  "iAmTaker localPeer acceptEnv quoteAcceptEnv rfqEnv myRfq tradeId =
     ((localPeer \<noteq> [] \<and> takerSigner acceptEnv quoteAcceptEnv rfqEnv \<noteq> [] \<and>
       takerSigner acceptEnv quoteAcceptEnv rfqEnv = localPeer) \<or>
      tradeId \<in> set myRfq)"

text \<open>The two binding checks of a terms envelope against the local identities.\<close>

definition termsLnPayerPeer :: "json \<Rightarrow> string" where
  "termsLnPayerPeer termsEnv =
     toLowerCase (str_or_empty (obj_get (body_or_empty termsEnv) ''ln_payer_peer''))"

definition termsSolRecipient :: "json \<Rightarrow> string" where
  "termsSolRecipient termsEnv = str_or_empty (obj_get (body_or_empty termsEnv) ''sol_recipient'')"

definition termsBoundToLocalIdentity :: "string \<Rightarrow> json \<Rightarrow> bool" where
  "termsBoundToLocalIdentity localPeer termsEnv =
     (if \<not> isObject termsEnv then True
      else if localPeer = [] then False
      else if \<not> is_hex_n_i 64 (termsLnPayerPeer termsEnv) then False
      else termsLnPayerPeer termsEnv = localPeer)"

definition termsBoundToLocalSolRecipient :: "string \<Rightarrow> json \<Rightarrow> bool" where
  "termsBoundToLocalSolRecipient localSolSigner termsEnv =
     (if \<not> isObject termsEnv then True
      else if localSolSigner = [] then False
      else termsSolRecipient termsEnv \<noteq> [] \<and> termsSolRecipient termsEnv = localSolSigner)"

text \<open>
  The frame every stage shares: if the stage can run it is marked in flight and its body
  runs inside \<open>try\<close>; when the body returns the stage is done and the budget is
  charged, when it throws the stage is marked for a retry after the cooldown.
\<close>

type_synonym 'w stage_body = "'w \<Rightarrow> tradeauto \<Rightarrow> (string + unit) \<times> 'w \<times> tradeauto"

definition run_stage :: "'w env \<Rightarrow> string \<Rightarrow> int \<Rightarrow> 'w stage_body \<Rightarrow> 'w drv \<Rightarrow> 'w drv" where
  "run_stage env stageKey cooldownMs body d =
     (case d of (al, w, s) \<Rightarrow>
        if canRunStage (clock env w) stageKey s
        then
          let r = body w (markStageInFlight stageKey s);
              w' = fst (snd r); s' = snd (snd r)
          in case fst r of
               Inr u \<Rightarrow> (al - 1, w', acted (markStageSuccess (clock env w') stageKey s'))
             | Inl err \<Rightarrow> (al, w', markStageRetry (clock env w') stageKey cooldownMs s')
        else d)"

text \<open>A tool call as the last statement of a stage body.\<close>

definition tool_stage :: "'w env \<Rightarrow> string \<Rightarrow> json \<Rightarrow> 'w stage_body" where
  "tool_stage env t a w s =
     (let r = call_tool env t a w s
      in (case fst r of Inr out \<Rightarrow> Inr () | Inl err \<Rightarrow> Inl err, snd r))"

definition terms_post_body ::
  "'w env \<Rightarrow> string \<Rightarrow> string \<Rightarrow> string \<Rightarrow> string \<Rightarrow> json \<Rightarrow> json \<Rightarrow> json \<Rightarrow> 'w stage_body" where
  "terms_post_body env localPeer localSolSigner tradeId swapChannel quoteEnv rfqEnv quoteAcceptEnv w s =
     (let quoteBody = body_or_empty quoteEnv;
          rfqBody = body_or_empty rfqEnv;
          btcSats = toIntOrNull (jcoalesce (obj_get quoteBody ''btc_sats'') (obj_get rfqBody ''btc_sats''));
          usdtAmount = trim (String (jcoalesce (jcoalesce (obj_get quoteBody ''usdt_amount'')
                                                  (obj_get rfqBody ''usdt_amount'')) (JStr [])));
          solRecipient = str_or_empty (obj_get rfqBody ''sol_recipient'');
          solRefund = localSolSigner;
          tradeFeeCollector = str_or_empty (obj_get quoteBody ''trade_fee_collector'');
          lnPayerPeer = toLowerCase (trim (String (jor (jor (obj_get quoteAcceptEnv ''signer'')
                                                           (obj_get rfqEnv ''signer'')) (JStr []))));
          solMint = trim (String (jor (jor (jor (JStr (usdt_mint (opts s))) (obj_get rfqBody ''sol_mint''))
                                           (obj_get quoteBody ''sol_mint'')) (JStr [])))
      in if (case btcSats of None \<Rightarrow> True | Some b \<Rightarrow> b < 1)
         then (Inl ''terms_post: missing btc_sats'', w, s)
         else if \<not> is_digits usdtAmount then (Inl ''terms_post: missing usdt_amount'', w, s)
         else if solMint = [] then (Inl ''terms_post: missing usdt_mint'', w, s)
         else if solRecipient = [] then (Inl ''terms_post: missing sol_recipient'', w, s)
         else if solRefund = [] then (Inl ''terms_post: missing sol_refund'', w, s)
         else if tradeFeeCollector = [] then (Inl ''terms_post: missing trade_fee_collector'', w, s)
         else if lnPayerPeer = [] then (Inl ''terms_post: missing ln_payer_peer'', w, s)
         else
           let quoteRefundWindowSec =
                 clampInt_ta (toIntOrNull (obj_get quoteBody ''sol_refund_window_sec'')) 3600
                   (7 * 24 * 3600) (default_sol_refund_window_sec (opts s));
               refundAfterUnix = clock env w div 1000 + quoteRefundWindowSec;
               termsValidUntilUnix = toIntOrNull (obj_get quoteBody ''valid_until_unix'')
           in tool_stage env ''intercomswap_terms_post''
                (JObj ([(''channel'', JStr swapChannel), (''trade_id'', JStr tradeId),
                        (''btc_sats'', JNum (case btcSats of Some b \<Rightarrow> b | None \<Rightarrow> 0)),
                        (''usdt_amount'', JStr usdtAmount), (''sol_mint'', JStr solMint),
                        (''sol_recipient'', JStr solRecipient), (''sol_refund'', JStr solRefund),
                        (''sol_refund_after_unix'', JNum refundAfterUnix),
                        (''ln_receiver_peer'', JStr localPeer), (''ln_payer_peer'', JStr lnPayerPeer),
                        (''trade_fee_collector'', JStr tradeFeeCollector)] @
                       (case termsValidUntilUnix of
                          Some v \<Rightarrow> if v > 0 then [(''terms_valid_until_unix'', JNum v)] else []
                        | None \<Rightarrow> []))) w s)"

definition terms_accept_body ::
  "'w env \<Rightarrow> string \<Rightarrow> string \<Rightarrow> string \<Rightarrow> json \<Rightarrow> 'w stage_body" where
  "terms_accept_body env localPeer localSolSigner swapChannel termsEnv w s =
     (if \<not> termsBoundToLocalIdentity localPeer termsEnv
      then (Inl ''terms_accept: terms.ln_payer_peer mismatch'', w, s)
      else if \<not> termsBoundToLocalSolRecipient localSolSigner termsEnv
      then (Inl ''terms_accept: terms.sol_recipient mismatch'', w, s)
      else tool_stage env ''intercomswap_terms_accept_from_terms''
             (JObj [(''channel'', JStr swapChannel), (''terms_envelope'', termsEnv)]) w s)"

definition ln_invoice_body :: "'w env \<Rightarrow> string \<Rightarrow> string \<Rightarrow> json \<Rightarrow> 'w stage_body" where
  "ln_invoice_body env tradeId swapChannel termsEnv w s =
     (case toIntOrNull (obj_get (body_or_empty termsEnv) ''btc_sats'') of
        None \<Rightarrow> (Inl ''ln_invoice: missing btc_sats'', w, s)
      | Some btcSats \<Rightarrow>
          if btcSats < 1 then (Inl ''ln_invoice: missing btc_sats'', w, s)
          else tool_stage env ''intercomswap_swap_ln_invoice_create_and_post''
                 (JObj [(''channel'', JStr swapChannel), (''trade_id'', JStr tradeId),
                        (''btc_sats'', JNum btcSats),
                        (''label'', JStr (take 120 (''swap-'' @ tradeId @ ''-'' @ int_str (clock env w)))),
                        (''description'', JStr (take 500 (''intercomswap '' @ tradeId)))]) w s)"

definition sol_escrow_body :: "'w env \<Rightarrow> string \<Rightarrow> string \<Rightarrow> json \<Rightarrow> json \<Rightarrow> 'w stage_body" where
  "sol_escrow_body env tradeId swapChannel termsEnv invoiceEnv w s =
     (let termsBody = body_or_empty termsEnv;
          invBody = body_or_empty invoiceEnv;
          paymentHashHex = toLowerCase (str_or_empty (obj_get invBody ''payment_hash_hex''));
          mint = trim (String (jor (jor (obj_get termsBody ''sol_mint'') (JStr (usdt_mint (opts s))))
                                  (JStr [])));
          amount = str_or_empty (obj_get termsBody ''usdt_amount'');
          recipient = str_or_empty (obj_get termsBody ''sol_recipient'');
          refund = str_or_empty (obj_get termsBody ''sol_refund'');
          refundAfterUnix = toIntOrNull (obj_get termsBody ''sol_refund_after_unix'');
          tradeFeeCollector = str_or_empty (obj_get termsBody ''trade_fee_collector'')
      in if \<not> is_hex_n_i 64 paymentHashHex then (Inl ''sol_escrow: missing payment_hash_hex'', w, s)
         else if mint = [] then (Inl ''sol_escrow: missing mint'', w, s)
         else if \<not> is_digits amount then (Inl ''sol_escrow: missing amount'', w, s)
         else if recipient = [] then (Inl ''sol_escrow: missing recipient'', w, s)
         else if refund = [] then (Inl ''sol_escrow: missing refund'', w, s)
         else if (case refundAfterUnix of None \<Rightarrow> True | Some r \<Rightarrow> r < 1)
         then (Inl ''sol_escrow: missing refund_after_unix'', w, s)
         else if tradeFeeCollector = [] then (Inl ''sol_escrow: missing trade_fee_collector'', w, s)
         else tool_stage env ''intercomswap_swap_sol_escrow_init_and_post''
                (JObj ([(''channel'', JStr swapChannel), (''trade_id'', JStr tradeId),
                        (''payment_hash_hex'', JStr paymentHashHex), (''mint'', JStr mint),
                        (''amount'', JStr amount), (''recipient'', JStr recipient),
                        (''refund'', JStr refund),
                        (''refund_after_unix'',
                           JNum (case refundAfterUnix of Some r \<Rightarrow> r | None \<Rightarrow> 0)),
                        (''trade_fee_collector'', JStr tradeFeeCollector)] @
                       (case sol_cu_limit (opts s) of
                          Some l \<Rightarrow> if l > 0 then [(''cu_limit'', JNum l)] else []
                        | None \<Rightarrow> []) @
                       (case sol_cu_price (opts s) of
                          Some p \<Rightarrow> if p > 0 then [(''cu_price'', JNum p)] else []
                        | None \<Rightarrow> []))) w s)"

definition ln_pay_body ::
  "'w env \<Rightarrow> string \<Rightarrow> string \<Rightarrow> string \<Rightarrow> string \<Rightarrow> json \<Rightarrow> json \<Rightarrow> json \<Rightarrow> 'w stage_body" where
  "ln_pay_body env localPeer localSolSigner tradeId swapChannel termsEnv invoiceEnv escrowEnv w s =
     (if \<not> termsBoundToLocalIdentity localPeer termsEnv
      then (Inl ''ln_pay: terms.ln_payer_peer mismatch'', w, s)
      else if \<not> termsBoundToLocalSolRecipient localSolSigner termsEnv
      then (Inl ''ln_pay: terms.sol_recipient mismatch'', w, s)
      else
        let r = call_tool env ''intercomswap_swap_ln_pay_and_post_verified''
                  (JObj [(''channel'', JStr swapChannel), (''terms_envelope'', termsEnv),
                         (''invoice_envelope'', invoiceEnv), (''escrow_envelope'', escrowEnv)]) w s;
            w' = fst (snd r); s' = snd (snd r)
        in case fst r of
             Inl err \<Rightarrow> (Inl err, w', s')
           | Inr out \<Rightarrow>
               let preimageHex = toLowerCase (str_or_empty (obj_get out ''preimage_hex''));
                   s1 = (if is_hex_n_i 64 preimageHex
                         then s'\<lparr> tradePreimage := AList.update tradeId preimageHex (tradePreimage s') \<rparr>
                         else s')
               in (Inr (), w', pruneCaches (clock env w') [] s1))"

definition sol_claim_body ::
  "'w env \<Rightarrow> string \<Rightarrow> string \<Rightarrow> string \<Rightarrow> json \<Rightarrow> 'w stage_body" where
  "sol_claim_body env localSolSigner tradeId swapChannel termsEnv w s =
     (if \<not> termsBoundToLocalSolRecipient localSolSigner termsEnv
      then (Inl ''sol_claim: terms.sol_recipient mismatch'', w, s)
      else
        let mint = trim (String (jor (jor (obj_get (body_or_empty termsEnv) ''sol_mint'')
                                          (JStr (usdt_mint (opts s)))) (JStr [])))
        in if mint = [] then (Inl ''sol_claim: missing mint'', w, s)
           else
             let cached = toLowerCase (trim (case map_of (tradePreimage s) tradeId of
                                               Some p \<Rightarrow> p | None \<Rightarrow> []));
                 claim = (\<lambda>preimageHex w1 s1.
                            if \<not> is_hex_n_i 64 preimageHex
                            then (Inl ''sol_claim: missing LN preimage'', w1, s1)
                            else tool_stage env ''intercomswap_swap_sol_claim_and_post''
                                   (JObj [(''channel'', JStr swapChannel), (''trade_id'', JStr tradeId),
                                          (''preimage_hex'', JStr preimageHex), (''mint'', JStr mint)])
                                   w1 s1)
             in if is_hex_n_i 64 cached then claim cached w s
                else
                  let r = call_tool env ''intercomswap_receipts_show''
                            (JObj [(''trade_id'', JStr tradeId)]) w s;
                      w' = fst (snd r); s' = snd (snd r)
                  in case fst r of
                       Inl err \<Rightarrow> (Inl err, w', s')
                     | Inr rec \<Rightarrow>
                         let preimageHex = toLowerCase (str_or_empty (obj_get rec ''ln_preimage_hex''));
                             s1 = (if is_hex_n_i 64 preimageHex
                                   then s'\<lparr> tradePreimage :=
                                             AList.update tradeId preimageHex (tradePreimage s') \<rparr>
                                   else s')
                         in claim preimageHex w' (pruneCaches (clock env w') [] s1))"

text \<open>The body of the settlement loop, for one trade context.\<close>

definition settle_trade ::
  "'w env \<Rightarrow> contexts \<Rightarrow> string \<Rightarrow> string \<Rightarrow> trade_ctx \<Rightarrow> 'w drv \<Rightarrow> 'w drv" where
  "settle_trade env ctx localPeer localSolSigner tradeCtx d =
     (case d of (al, w, s) \<Rightarrow>
        let tradeId = trim (tc_trade_id tradeCtx) in
        if al \<le> 0 then d
        else if tradeId = [] then d
        else if truthy (tc_claimed tradeCtx) \<or> truthy (tc_refunded tradeCtx) \<or>
                truthy (tc_canceled tradeCtx) then d
        else
          let neg = (case map_of (swapNegotiationByTrade ctx) tradeId of Some n \<Rightarrow> n | None \<Rightarrow> neg_new);
              rfqEnv = env_or_null (neg_rfq neg);
              quoteEnv = env_or_null (neg_quote neg);
              quoteAcceptEnv = env_or_null (neg_quote_accept neg);
              termsEnv = env_or_null (tc_terms tradeCtx);
              acceptEnv = env_or_null (tc_accept tradeCtx);
              invoiceEnv = env_or_null (tc_invoice tradeCtx);
              escrowEnv = env_or_null (tc_escrow tradeCtx);
              lnPaidEnv = env_or_null (tc_ln_paid tradeCtx);
              maker = iAmMaker localPeer termsEnv quoteEnv;
              taker = iAmTaker localPeer acceptEnv quoteAcceptEnv rfqEnv (myRfqTradeIds ctx) tradeId
          in if \<not> maker \<and> \<not> taker then d
             else
               let swapChannel =
                     trim (if tc_channel tradeCtx \<noteq> [] then tc_channel tradeCtx
                           else if neg_swap_channel neg \<noteq> [] then neg_swap_channel neg
                           else ''swap:'' @ tradeId)
               in if \<not> startsWith swapChannel ''swap:'' then d
                  else if maker \<and> \<not> isObject termsEnv \<and> isObject quoteEnv \<and> isObject rfqEnv \<and>
                          isObject quoteAcceptEnv
                  then run_stage env (tradeId @ '':terms_post'') 10000
                         (terms_post_body env localPeer localSolSigner tradeId swapChannel quoteEnv
                            rfqEnv quoteAcceptEnv) d
                  else if taker \<and> isObject termsEnv \<and> \<not> isObject acceptEnv
                  then run_stage env (tradeId @ '':terms_accept'') 10000
                         (terms_accept_body env localPeer localSolSigner swapChannel termsEnv) d
                  else if maker \<and> isObject termsEnv \<and> isObject acceptEnv \<and> \<not> isObject invoiceEnv
                  then run_stage env (tradeId @ '':ln_invoice'') 10000
                         (ln_invoice_body env tradeId swapChannel termsEnv) d
                  else if maker \<and> isObject termsEnv \<and> isObject invoiceEnv \<and> \<not> isObject escrowEnv
                  then run_stage env (tradeId @ '':sol_escrow'') 10000
                         (sol_escrow_body env tradeId swapChannel termsEnv invoiceEnv) d
                  else if taker \<and> isObject termsEnv \<and> isObject invoiceEnv \<and> isObject escrowEnv \<and>
                          \<not> isObject lnPaidEnv
                  then run_stage env (tradeId @ '':ln_pay'') 10000
                         (ln_pay_body env localPeer localSolSigner tradeId swapChannel termsEnv
                            invoiceEnv escrowEnv) d
                  else if taker \<and> isObject termsEnv \<and> isObject lnPaidEnv \<and>
                          \<not> truthy (tc_claimed tradeCtx)
                  then run_stage env (tradeId @ '':sol_claim'') 15000
                         (sol_claim_body env localSolSigner tradeId swapChannel termsEnv) d
                  else d)"

subsection \<open>A tick, from the contexts on\<close>

text \<open>
  \<open>_tick\<close> from line 703: the events of the window that are not stale, the contexts,
  the pruning, and the five pipelines over one budget of 12. What comes before (the
  keep-alive subscription, the read of the log into \<open>this._events\<close>, the two identity
  calls) only provides \<open>events\<close>, \<open>localPeer\<close> and \<open>localSolSigner\<close>, which are
  arguments here. \<open>max_trades\<close> is not negative (\<open>start\<close> clamps it into
  \<open>[10, 500]\<close>).
\<close>

definition tick_prepare :: "int \<Rightarrow> contexts \<Rightarrow> tradeauto \<Rightarrow> tradeauto" where
  "tick_prepare now ctx s =
     pruneCaches now (terminalTradeIds ctx)
       (s\<lparr> autoAcceptedTradeLock :=
              filter (\<lambda>kv. fst kv \<notin> set (terminalTradeIds ctx)) (autoAcceptedTradeLock s) \<rparr>)"

definition quote_pipeline :: "'w env \<Rightarrow> contexts \<Rightarrow> string \<Rightarrow> json list \<Rightarrow> 'w drv \<Rightarrow> 'w drv" where
  "quote_pipeline env ctx localSolSigner activeEvents d =
     (if enable_quote_from_offers (opts (snd (snd d))) \<and> fst d > 0
      then fold (quote_step env ctx localSolSigner)
             (rev (filter (\<lambda>e. envelopeKind e = ''swap.rfq'') activeEvents)) d
      else d)"

definition accept_pipeline :: "'w env \<Rightarrow> contexts \<Rightarrow> 'w drv \<Rightarrow> 'w drv" where
  "accept_pipeline env ctx d =
     (if enable_accept_quotes (opts (snd (snd d))) \<and> fst d > 0
      then fold (accept_step env ctx) (rev (quoteEvents ctx)) d
      else d)"

definition invite_pipeline :: "'w env \<Rightarrow> contexts \<Rightarrow> 'w drv \<Rightarrow> 'w drv" where
  "invite_pipeline env ctx d =
     (if enable_invite_from_accepts (opts (snd (snd d))) \<and> fst d > 0
      then fold (invite_step env ctx) (rev (acceptEvents ctx)) d
      else d)"

definition join_pipeline :: "'w env \<Rightarrow> contexts \<Rightarrow> string \<Rightarrow> 'w drv \<Rightarrow> 'w drv" where
  "join_pipeline env ctx localPeer d =
     (if enable_join_invites (opts (snd (snd d))) \<and> fst d > 0
      then fold (join_step env ctx localPeer) (rev (inviteEvents ctx)) d
      else d)"

definition settle_pipeline :: "'w env \<Rightarrow> contexts \<Rightarrow> string \<Rightarrow> string \<Rightarrow> 'w drv \<Rightarrow> 'w drv" where
  "settle_pipeline env ctx localPeer localSolSigner d =
     (if enable_settlement (opts (snd (snd d))) \<and> fst d > 0
      then fold (settle_trade env ctx localPeer localSolSigner)
             (take (nat (max_trades (opts (snd (snd d))))) (swapTradeContexts ctx)) d
      else d)"

definition tick_body ::
  "'w env \<Rightarrow> (json \<Rightarrow> string option) \<Rightarrow> string \<Rightarrow> string \<Rightarrow> json list \<Rightarrow> 'w \<Rightarrow> tradeauto \<Rightarrow> 'w drv" where
  "tick_body env hashf localPeer localSolSigner events w s =
     (let now = clock env w;
          activeEvents = filter (\<lambda>e. \<not> isEventStale now e (event_max_age_ms (opts s))) events;
          ctx = buildContexts hashf now localPeer activeEvents;
          d0 = (12, w, tick_prepare now ctx s);
          d1 = quote_pipeline env ctx localSolSigner activeEvents d0;
          d2 = accept_pipeline env ctx d1;
          d3 = invite_pipeline env ctx d2;
          d4 = join_pipeline env ctx localPeer d3
      in settle_pipeline env ctx localPeer localSolSigner d4)"

subsection \<open>The roles as the specification words them\<close>

text \<open>The signer of an envelope as the driver compares it: a string, trimmed, in lower case.\<close>

definition signer_of :: "json \<Rightarrow> string" where
  "signer_of envelope = toLowerCase (str_or_empty (obj_get envelope ''signer''))"

text \<open>
  The two definitions of section 4.7.1 of the specification, as disjunctions:
  \<open>i_am_maker := local_peer == terms.signer \<or> local_peer == quote.signer\<close> and
  \<open>i_am_taker := local_peer == accept.signer \<or> local_peer == quote_accept.signer \<or>
  trade_id \<in> my_rfq_trade_ids\<close>. They are the specification's, not the program's.
\<close>

definition spec_i_am_maker :: "string \<Rightarrow> json \<Rightarrow> json \<Rightarrow> bool" where
  "spec_i_am_maker localPeer termsEnv quoteEnv =
     (localPeer = signer_of termsEnv \<or> localPeer = signer_of quoteEnv)"

definition spec_i_am_taker :: "string \<Rightarrow> json \<Rightarrow> json \<Rightarrow> string list \<Rightarrow> string \<Rightarrow> bool" where
  "spec_i_am_taker localPeer acceptEnv quoteAcceptEnv myRfq tradeId =
     (localPeer = signer_of acceptEnv \<or> localPeer = signer_of quoteAcceptEnv \<or> tradeId \<in> set myRfq)"

text \<open>Two peers, and envelopes signed by each.\<close>

definition peer_a :: string where
  "peer_a = ''aaaaaaaaaaaaaaaaaaaaaaaaaaaaaaaaaaaaaaaaaaaaaaaaaaaaaaaaaaaaaaaa''"

definition peer_b :: string where
  "peer_b = ''bbbbbbbbbbbbbbbbbbbbbbbbbbbbbbbbbbbbbbbbbbbbbbbbbbbbbbbbbbbbbbbb''"

definition signed_by :: "string \<Rightarrow> json" where
  "signed_by p = JObj [(''signer'', JStr p), (''body'', JObj [])]"

subsection \<open>What a step adds to the log, and what it charges\<close>

definition st :: "'w drv \<Rightarrow> tradeauto" where
  "st d = snd (snd d)"

text \<open>The calls a step has added to the log of \<open>s\<close>, and the check that it only added.\<close>

definition new_calls :: "tradeauto \<Rightarrow> tradeauto \<Rightarrow> (string \<times> json) list" where
  "new_calls s s' = drop (length (tool_log s)) (tool_log s')"

definition log_grows :: "tradeauto \<Rightarrow> tradeauto \<Rightarrow> bool" where
  "log_grows s s' = (take (length (tool_log s)) (tool_log s') = tool_log s)"

definition log_ext :: "((string \<times> json) \<Rightarrow> bool) \<Rightarrow> tradeauto \<Rightarrow> tradeauto \<Rightarrow> bool" where
  "log_ext Q s s' = (log_grows s s' \<and> list_all Q (new_calls s s'))"

text \<open>
  The budget of a tick against the counter \<open>stats.actions\<close>: a step never raises the
  budget, never takes it below zero, and charges it exactly when it counts an action.
\<close>

definition budget_ok :: "'w drv \<Rightarrow> 'w drv \<Rightarrow> bool" where
  "budget_ok d d' =
     (fst d' \<le> fst d \<and> (0 \<le> fst d \<longrightarrow> 0 \<le> fst d') \<and>
      int (stats_actions (st d')) + fst d' = int (stats_actions (st d)) + fst d)"

text \<open>The signature of an event as \<open>envelopeSig\<close> tests it.\<close>

definition sig_norm :: "json \<Rightarrow> string" where
  "sig_norm evt = toLowerCase (str_or_empty (obj_get (obj_get evt ''message'') ''sig''))"

text \<open>
  A call of the tool \<open>t\<close> whose argument \<open>k\<close> is the envelope of an event of the queue
  with a signature of 128 hexadecimal characters.
\<close>

definition signed_call :: "string \<Rightarrow> string \<Rightarrow> json list \<Rightarrow> (string \<times> json) \<Rightarrow> bool" where
  "signed_call t k queue c =
     (fst c = t \<and>
      list_ex (\<lambda>e. obj_get (snd c) k = obj_get e ''message'' \<and> is_hex_n_i 128 (sig_norm e)) queue)"

text \<open>
  What the log must show of a payment and of a claim: the terms handed to the
  Lightning payment name the local peer as payer and the local signer as recipient; a
  claim is for a trade context of the tick whose terms name the local signer as
  recipient.
\<close>

definition bound_call :: "string \<Rightarrow> string \<Rightarrow> trade_ctx list \<Rightarrow> (string \<times> json) \<Rightarrow> bool" where
  "bound_call localPeer localSolSigner tcs c =
     ((if fst c = ''intercomswap_swap_ln_pay_and_post_verified''
       then isObject (obj_get (snd c) ''terms_envelope'') \<and> localPeer \<noteq> [] \<and>
            termsLnPayerPeer (obj_get (snd c) ''terms_envelope'') = localPeer \<and>
            localSolSigner \<noteq> [] \<and>
            termsSolRecipient (obj_get (snd c) ''terms_envelope'') = localSolSigner
       else True) \<and>
      (if fst c = ''intercomswap_swap_sol_claim_and_post''
       then list_ex (\<lambda>tc. obj_get (snd c) ''trade_id'' = JStr (trim (tc_trade_id tc)) \<and>
                          isObject (tc_terms tc) \<and> localSolSigner \<noteq> [] \<and>
                          termsSolRecipient (tc_terms tc) = localSolSigner) tcs
       else True))"

section \<open>Verification: the autopost scheduler\<close>

lemma clampInt_Inr:
  "clampInt v (Some lo) (Some hi) = Inr i \<longleftrightarrow> v = JNum i \<and> lo \<le> i \<and> i \<le> hi"
  by (auto simp: clampInt_def split: json.splits)

lemma clampInt_out:
  "i < lo \<or> hi < i \<Longrightarrow> isl (clampInt (JNum i) (Some lo) (Some hi))"
  by (auto simp: clampInt_def)

lemma start_interval_rejected:
  assumes "i < 1 \<or> 86400 < i"
  shows "isl (start env name tool (JNum i) ttl_sec vu args w m)"
  using assms clampInt_out[of i 1 86400]
  by (auto simp: start_def start_job_def Let_def split: sum.splits)

lemma start_job_D:
  assumes "start_job env name tool interval_sec ttl_sec vu args w m = Inr jb"
  shows "interval_sec = JNum (intervalSec jb) \<and> 1 \<le> intervalSec jb \<and> intervalSec jb \<le> 86400
       \<and> ttl_sec = JNum (ttlSec jb) \<and> 10 \<le> ttlSec jb \<and> ttlSec jb \<le> 604800
       \<and> (job_tool jb = ''intercomswap_offer_post'' \<or> job_tool jb = ''intercomswap_rfq_post'')
       \<and> job_name jb = str_or_empty name \<and> job_name jb \<noteq> [] \<and> map_of (jobs m) (job_name jb) = None
       \<and> clock env w div 1000 + 10 \<le> validUntilUnix jb
       \<and> validUntilUnix jb \<le> clock env w div 1000 + 604800
       \<and> job_timer jb = None \<and> runs jb = 0"
  using assms
  by (auto simp: start_job_def Let_def clampInt_Inr map_sum_def
           split: sum.splits option.splits if_splits)

lemma start_ok_D:
  assumes "start env name tool interval_sec ttl_sec vu args w m = Inr (r, m', w')"
  shows "interval_sec = JNum (res_interval_sec r) \<and> 1 \<le> res_interval_sec r
       \<and> res_interval_sec r \<le> 86400
       \<and> ttl_sec = JNum (res_ttl_sec r) \<and> 10 \<le> res_ttl_sec r \<and> res_ttl_sec r \<le> 604800"
proof -
  from assms obtain jb where
    sj: "start_job env name tool interval_sec ttl_sec vu args w m = Inr jb"
    and r: "res_interval_sec r = intervalSec jb" "res_ttl_sec r = ttlSec jb"
    by (auto simp: start_def Let_def split: sum.splits)
  show ?thesis using start_job_D[OF sj] r by simp
qed

text \<open>
  C4, as the claim states it, fails: \<open>start\<close> with \<open>interval_sec = 0\<close> (and a valid
  name, tool and \<open>ttl_sec\<close>) throws \<open>must be >= 1\<close>, and with
  \<open>interval_sec = 86401\<close> it throws \<open>must be <= 86400\<close>. Nothing is clamped and no
  job starts.
\<close>

theorem start_interval_not_clamped_counterexample:
  "start demo_env (JStr ''job1'') (JStr ''intercomswap_rfq_post'') (JNum 0) (JNum 60) JUndef
     (JObj []) 1000000 autopost_init = Inl (MustBeGE 1) \<and>
   start demo_env (JStr ''job1'') (JStr ''intercomswap_rfq_post'') (JNum 86401) (JNum 60) JUndef
     (JObj []) 1000000 autopost_init = Inl (MustBeLE 86400)"
  by (simp add: start_def start_job_def str_or_empty_def jor_def trim_def is_ws_def
        ws_chars_def autopost_init_def clampInt_def)

text \<open>
  C4, amended: \<open>start\<close> rejects every integer \<open>interval_sec\<close> outside
  \<open>[1, 86400]\<close> (it throws, the value is not clamped and no job starts); when
  \<open>start\<close> succeeds, the job runs with the \<open>interval_sec\<close> it was given, an integer of
  \<open>[1, 86400]\<close>, and \<open>ttl_sec\<close> was given as an integer of \<open>[10, 604800]\<close>:
  with \<open>ttl_sec\<close> absent, not an integer or outside that range, \<open>start\<close> fails.
\<close>

theorem start_validates_interval_and_ttl:
  "((i < 1 \<or> 86400 < i) \<longrightarrow> isl (start env name tool (JNum i) ttl_sec vu args w m)) \<and>
   (start env name tool interval_sec ttl_sec vu args w m = Inr (r, m', w') \<longrightarrow>
      interval_sec = JNum (res_interval_sec r) \<and> 1 \<le> res_interval_sec r \<and>
      res_interval_sec r \<le> 86400 \<and>
      ttl_sec = JNum (res_ttl_sec r) \<and> 10 \<le> res_ttl_sec r \<and> res_ttl_sec r \<le> 604800)"
  using start_interval_rejected[of i env name tool ttl_sec vu args w m]
        start_ok_D[of env name tool interval_sec ttl_sec vu args w m r m' w']
  by blast

lemma demo_start:
  "start demo_env (JStr ''job1'') (JStr ''intercomswap_offer_post'') (JNum 5) (JNum 10) JUndef
     (JObj [(''channel'', JStr ''c''), (''ttl_sec'', JNum 10)]) 1000000 autopost_init =
   Inr (\<lparr> res_name = ''job1'', res_tool = ''intercomswap_offer_post'', res_interval_sec = 5,
          res_ttl_sec = 10, res_valid_until_unix = 1010,
          res_first = Some (JObj [(''type'', JStr ''ok'')]) \<rparr>,
        demo_mgr, 1000001)"
  by (simp add: start_def start_job_def str_or_empty_def jor_def trim_def is_ws_def
        ws_chars_def autopost_init_def clampInt_def jnullish_def safeCloneArgs_def
        runOnce_def build_runArgs_def demo_env_def demo_mgr_def Let_def)

theorem start_validates_interval_and_ttl_witness:
  "isl (start demo_env (JStr ''job1'') (JStr ''intercomswap_offer_post'') (JNum 0) (JNum 10) JUndef
          (JObj []) 1000000 autopost_init) \<and>
   (\<exists>r m' w'. start demo_env (JStr ''job1'') (JStr ''intercomswap_offer_post'') (JNum 5) (JNum 10)
        JUndef (JObj [(''channel'', JStr ''c''), (''ttl_sec'', JNum 10)]) 1000000 autopost_init =
        Inr (r, m', w') \<and>
      res_interval_sec r = 5 \<and> 1 \<le> res_interval_sec r \<and> res_interval_sec r \<le> 86400 \<and>
      res_ttl_sec r = 10 \<and> 10 \<le> res_ttl_sec r \<and> res_ttl_sec r \<le> 604800)"
proof -
  have a: "(0::int) < 1 \<or> 86400 < (0::int)" by simp
  have p1: "isl (start demo_env (JStr ''job1'') (JStr ''intercomswap_offer_post'') (JNum 0)
      (JNum 10) JUndef (JObj []) 1000000 autopost_init)"
    using start_validates_interval_and_ttl[of 0 demo_env "JStr ''job1''"
        "JStr ''intercomswap_offer_post''" "JNum 10" JUndef "JObj []" 1000000 autopost_init] a
    by blast
  obtain r m' w' where
    ok: "start demo_env (JStr ''job1'') (JStr ''intercomswap_offer_post'') (JNum 5) (JNum 10)
        JUndef (JObj [(''channel'', JStr ''c''), (''ttl_sec'', JNum 10)]) 1000000 autopost_init =
        Inr (r, m', w')"
    using demo_start by blast
  have p2: "JNum 5 = JNum (res_interval_sec r) \<and> 1 \<le> res_interval_sec r \<and>
      res_interval_sec r \<le> 86400 \<and>
      JNum 10 = JNum (res_ttl_sec r) \<and> 10 \<le> res_ttl_sec r \<and> res_ttl_sec r \<le> 604800"
    using start_validates_interval_and_ttl[of 0 demo_env "JStr ''job1''"
        "JStr ''intercomswap_offer_post''" "JNum 10" JUndef
        "JObj [(''channel'', JStr ''c''), (''ttl_sec'', JNum 10)]" 1000000 autopost_init
        "JNum 5" r m' w'] ok
    by blast
  from p1 p2 ok show ?thesis by auto
qed

subsection \<open>Every publish carries the expiry fixed at start\<close>

lemma safeCloneArgs_obj: "\<exists>kvs. safeCloneArgs a = JObj kvs"
  by (cases a) (auto simp: safeCloneArgs_def)

lemma build_runArgs_valid_until:
  assumes "job_tool jb = ''intercomswap_offer_post'' \<or> job_tool jb = ''intercomswap_rfq_post''"
  shows "obj_get (build_runArgs jb) ''valid_until_unix'' = JNum (validUntilUnix jb)"
proof -
  obtain kvs where k: "safeCloneArgs (job_args jb) = JObj kvs"
    using safeCloneArgs_obj by blast
  show ?thesis using assms
    by (auto simp: build_runArgs_def Let_def k update_conv')
qed

lemma build_runArgs_ttl:
  assumes "job_tool jb = ''intercomswap_offer_post''"
  shows "obj_get (build_runArgs jb) ''ttl_sec'' = JUndef"
proof -
  obtain kvs where k: "safeCloneArgs (job_args jb) = JObj kvs"
    using safeCloneArgs_obj by blast
  show ?thesis using assms
    by (auto simp: build_runArgs_def Let_def k update_conv' delete_conv')
qed

lemma heap_ext_refl: "heap_ext h h"
  by (simp add: heap_ext_def)

lemma heap_ext_update:
  "job_fixed jb = job_fixed (h ! j) \<Longrightarrow> heap_ext h (h[j := jb])"
  by (auto simp: heap_ext_def) (metis nth_list_update_eq nth_list_update_neq)

lemma heap_ext_append: "heap_ext h (h @ [jb])"
  by (auto simp: heap_ext_def nth_append)

lemma publish_ok_ext:
  assumes "publish_ok h c" "heap_ext h h'"
  shows "publish_ok h' c"
  using assms by (auto simp: publish_ok_def job_fixed_def heap_ext_def split: if_splits)

lemma expire_job_facts:
  "heap_ext (heap m) (heap (expire_job j m))" "calls (expire_job j m) = calls m"
  by (auto simp: expire_job_def Let_def job_fixed_def intro!: heap_ext_update)

lemma expire_job_gone:
  "map_of (jobs (expire_job j m)) (job_name (heap m ! j)) = None"
  "job_timer (heap m ! j) = Some t \<Longrightarrow> t \<notin> set (timers (expire_job j m))"
  by (auto simp: expire_job_def Let_def delete_conv')

lemma runOnce_heap: "heap_ext (heap m) (heap (fst (snd (runOnce env j w m))))"
  by (auto simp: runOnce_def Let_def job_fixed_def expire_job_facts split: sum.splits
           intro!: heap_ext_update)

lemma runOnce_len: "length (heap (fst (snd (runOnce env j w m)))) = length (heap m)"
  by (auto simp: runOnce_def Let_def expire_job_def split: sum.splits)

lemma runOnce_calls:
  assumes "j < length (heap m)"
    and "job_tool (heap m ! j) = ''intercomswap_offer_post'' \<or>
         job_tool (heap m ! j) = ''intercomswap_rfq_post''"
  shows "calls (fst (snd (runOnce env j w m))) = calls m \<or>
         (\<exists>c. calls (fst (snd (runOnce env j w m))) = calls m @ [c] \<and> publish_ok (heap m) c)"
  using assms build_runArgs_valid_until[of "heap m ! j"] build_runArgs_ttl[of "heap m ! j"]
  by (auto simp: runOnce_def Let_def expire_job_facts publish_ok_def split: sum.splits)

lemma runOnce_expired:
  assumes "validUntilUnix (heap m ! j) \<le> clock env w div 1000"
  shows "runOnce env j w m = (RunStopped, expire_job j m, w)"
  using assms by (simp add: runOnce_def Let_def)

lemma intervalTick_expired:
  assumes "validUntilUnix (heap m ! j) \<le> clock env w div 1000"
  shows "intervalTick env j w m = (False, expire_job j m)"
  using assms by (simp add: intervalTick_def Let_def)

lemma jobs_ok_same_len:
  assumes "jobs_ok m" "heap_ext (heap m) (heap m')" "length (heap m') = length (heap m)"
    "calls m' = calls m"
  shows "jobs_ok m'"
proof -
  have tools: "list_all (\<lambda>jb. job_tool jb = ''intercomswap_offer_post'' \<or>
      job_tool jb = ''intercomswap_rfq_post'') (heap m')"
    using assms(1,2,3) unfolding jobs_ok_def list_all_length heap_ext_def job_fixed_def
    by (metis fst_conv)
  have "list_all (publish_ok (heap m')) (calls m')"
    using assms(1,4) publish_ok_ext[OF _ assms(2)] by (auto simp: jobs_ok_def list_all_iff)
  with tools show ?thesis by (simp add: jobs_ok_def)
qed

lemma jobs_ok_runOnce:
  assumes "jobs_ok m" "j < length (heap m)"
  shows "jobs_ok (fst (snd (runOnce env j w m)))"
proof -
  let ?m' = "fst (snd (runOnce env j w m))"
  have ext: "heap_ext (heap m) (heap ?m')" by (rule runOnce_heap)
  have tl: "job_tool (heap m ! j) = ''intercomswap_offer_post'' \<or>
      job_tool (heap m ! j) = ''intercomswap_rfq_post''"
    using assms by (auto simp: jobs_ok_def list_all_length)
  have tools: "list_all (\<lambda>jb. job_tool jb = ''intercomswap_offer_post'' \<or>
      job_tool jb = ''intercomswap_rfq_post'') (heap ?m')"
    using assms(1) ext runOnce_len[of env j w m]
    unfolding jobs_ok_def list_all_length heap_ext_def job_fixed_def
    by (metis fst_conv)
  have old: "\<forall>c\<in>set (calls m). publish_ok (heap ?m') c"
    using assms(1) publish_ok_ext[OF _ ext] by (auto simp: jobs_ok_def list_all_iff)
  have "list_all (publish_ok (heap ?m')) (calls ?m')"
    using runOnce_calls[OF assms(2) tl, of env w] old publish_ok_ext[OF _ ext]
    by (auto simp: list_all_iff)
  with tools show ?thesis by (simp add: jobs_ok_def)
qed

lemma jobs_ok_alloc:
  assumes "jobs_ok m"
    "job_tool jb = ''intercomswap_offer_post'' \<or> job_tool jb = ''intercomswap_rfq_post''"
  shows "jobs_ok (m\<lparr> heap := heap m @ [jb] \<rparr>)"
  using assms publish_ok_ext[OF _ heap_ext_append[of "heap m" jb]]
  by (auto simp: jobs_ok_def list_all_iff)

lemma jobs_ok_init: "jobs_ok autopost_init"
  by (simp add: jobs_ok_def autopost_init_def)

lemma jobs_ok_tick:
  assumes "jobs_ok m"
  shows "jobs_ok (snd (intervalTick env j w m))"
  using assms
  by (auto simp: intervalTick_def Let_def expire_job_facts expire_job_def job_fixed_def
        heap_ext_refl intro!: jobs_ok_same_len[OF assms] heap_ext_update)

lemma jobs_ok_stop:
  assumes "jobs_ok m" "stop name m = Inr (b, m')"
  shows "jobs_ok m'"
  using assms
  by (auto simp: stop_def Let_def jobs_ok_def split: if_splits option.splits)

lemma start_unfold:
  assumes "start env name tool interval_sec ttl_sec vu args w m = Inr (r, m', w')"
  obtains jb where
    "start_job env name tool interval_sec ttl_sec vu args w m = Inr jb"
    "m' = (fst (snd (runOnce env (length (heap m)) w (m\<lparr> heap := heap m @ [jb] \<rparr>))))
          \<lparr> heap := (heap (fst (snd (runOnce env (length (heap m)) w (m\<lparr> heap := heap m @ [jb] \<rparr>)))))
               [length (heap m) :=
                  (heap (fst (snd (runOnce env (length (heap m)) w (m\<lparr> heap := heap m @ [jb] \<rparr>))))
                     ! length (heap m))\<lparr> job_timer := Some (length (heap m)) \<rparr>],
            timers := timers (fst (snd (runOnce env (length (heap m)) w (m\<lparr> heap := heap m @ [jb] \<rparr>))))
                        @ [length (heap m)],
            jobs := AList.update (job_name jb) (length (heap m))
                      (jobs (fst (snd (runOnce env (length (heap m)) w (m\<lparr> heap := heap m @ [jb] \<rparr>))))) \<rparr>"
  using assms by (auto simp: start_def Let_def split: sum.splits)

lemma jobs_ok_start:
  assumes "jobs_ok m" "start env name tool interval_sec ttl_sec vu args w m = Inr (r, m', w')"
  shows "jobs_ok m'"
proof -
  from assms(2) obtain jb where
    sj: "start_job env name tool interval_sec ttl_sec vu args w m = Inr jb" and
    m': "m' = (fst (snd (runOnce env (length (heap m)) w (m\<lparr> heap := heap m @ [jb] \<rparr>))))
          \<lparr> heap := (heap (fst (snd (runOnce env (length (heap m)) w (m\<lparr> heap := heap m @ [jb] \<rparr>)))))
               [length (heap m) :=
                  (heap (fst (snd (runOnce env (length (heap m)) w (m\<lparr> heap := heap m @ [jb] \<rparr>))))
                     ! length (heap m))\<lparr> job_timer := Some (length (heap m)) \<rparr>],
            timers := timers (fst (snd (runOnce env (length (heap m)) w (m\<lparr> heap := heap m @ [jb] \<rparr>))))
                        @ [length (heap m)],
            jobs := AList.update (job_name jb) (length (heap m))
                      (jobs (fst (snd (runOnce env (length (heap m)) w (m\<lparr> heap := heap m @ [jb] \<rparr>))))) \<rparr>"
    by (rule start_unfold)
  let ?m0 = "m\<lparr> heap := heap m @ [jb] \<rparr>"
  let ?m1 = "fst (snd (runOnce env (length (heap m)) w ?m0))"
  have t: "job_tool jb = ''intercomswap_offer_post'' \<or> job_tool jb = ''intercomswap_rfq_post''"
    using start_job_D[OF sj] by simp
  have ok0: "jobs_ok ?m0" by (rule jobs_ok_alloc[OF assms(1) t])
  have ok1: "jobs_ok ?m1" by (rule jobs_ok_runOnce[OF ok0]) simp
  show ?thesis unfolding m'
    by (rule jobs_ok_same_len[OF ok1]) (auto intro!: heap_ext_update simp: job_fixed_def)
qed

lemma jobs_ok_step: "jobs_ok m \<Longrightarrow> jobs_ok (ap_step env ev w m)"
  by (cases ev)
     (auto simp: ap_step_def jobs_ok_runOnce jobs_ok_tick split: sum.splits
           dest: jobs_ok_start jobs_ok_stop)

lemma jobs_ok_run: "jobs_ok m \<Longrightarrow> jobs_ok (ap_run env es m)"
  by (induction es arbitrary: m) (auto simp: jobs_ok_step)

lemma heap_ext_start:
  assumes "start env name tool interval_sec ttl_sec vu args w m = Inr (r, m', w')"
  shows "heap_ext (heap m) (heap m')"
proof -
  from assms obtain jb where
    m': "m' = (fst (snd (runOnce env (length (heap m)) w (m\<lparr> heap := heap m @ [jb] \<rparr>))))
          \<lparr> heap := (heap (fst (snd (runOnce env (length (heap m)) w (m\<lparr> heap := heap m @ [jb] \<rparr>)))))
               [length (heap m) :=
                  (heap (fst (snd (runOnce env (length (heap m)) w (m\<lparr> heap := heap m @ [jb] \<rparr>))))
                     ! length (heap m))\<lparr> job_timer := Some (length (heap m)) \<rparr>],
            timers := timers (fst (snd (runOnce env (length (heap m)) w (m\<lparr> heap := heap m @ [jb] \<rparr>))))
                        @ [length (heap m)],
            jobs := AList.update (job_name jb) (length (heap m))
                      (jobs (fst (snd (runOnce env (length (heap m)) w (m\<lparr> heap := heap m @ [jb] \<rparr>))))) \<rparr>"
    by (rule start_unfold)
  let ?m0 = "m\<lparr> heap := heap m @ [jb] \<rparr>"
  let ?m1 = "fst (snd (runOnce env (length (heap m)) w ?m0))"
  have a: "heap_ext (heap m) (heap ?m0)" by (simp add: heap_ext_append)
  have b: "heap_ext (heap ?m0) (heap ?m1)" by (rule runOnce_heap)
  have c: "heap_ext (heap ?m1) (heap m')" unfolding m'
    by (auto intro!: heap_ext_update simp: job_fixed_def)
  from a b c show ?thesis by (auto simp: heap_ext_def)
qed

lemma heap_ext_step: "heap_ext (heap m) (heap (ap_step env ev w m))"
proof (cases ev)
  case (EvStart n t i l v a)
  then show ?thesis
    by (auto simp: ap_step_def heap_ext_refl split: sum.splits dest: heap_ext_start)
next
  case (EvRun j)
  then show ?thesis by (simp add: ap_step_def heap_ext_refl runOnce_heap)
next
  case (EvTick j)
  then show ?thesis
    by (auto simp: ap_step_def heap_ext_refl intervalTick_def Let_def expire_job_facts)
next
  case (EvStop n)
  then show ?thesis
    by (auto simp: ap_step_def heap_ext_refl stop_def Let_def split: sum.splits option.splits if_splits)
qed

text \<open>
  C2. In every history of a manager that starts empty, every publish carries the
  \<open>validUntilUnix\<close> of its job, was made while the clock was before it, names the
  job's tool and, for an offer, has no \<open>ttl_sec\<close> (first conjunct); no step of a
  history changes the \<open>validUntilUnix\<close> of a job, so that value is the one \<open>start\<close>
  fixed (second conjunct); and a run or an interval tick at a clock of
  \<open>validUntilUnix\<close> or later publishes nothing, removes the job from \<open>jobs\<close> and
  disarms its timer (third conjunct).
\<close>

theorem autopost_publishes_fixed_valid_until:
  "list_all (publish_ok (heap (ap_run env es autopost_init))) (calls (ap_run env es autopost_init)) \<and>
   (\<forall>j<length (heap m). validUntilUnix (heap (ap_step env ev w m) ! j) = validUntilUnix (heap m ! j)) \<and>
   (validUntilUnix (heap m ! j) \<le> clock env w div 1000 \<longrightarrow>
      runOnce env j w m = (RunStopped, expire_job j m, w) \<and>
      intervalTick env j w m = (False, expire_job j m) \<and>
      calls (expire_job j m) = calls m \<and>
      map_of (jobs (expire_job j m)) (job_name (heap m ! j)) = None \<and>
      (\<forall>t. job_timer (heap m ! j) = Some t \<longrightarrow> t \<notin> set (timers (expire_job j m))))"
proof (intro conjI allI impI)
  show "list_all (publish_ok (heap (ap_run env es autopost_init))) (calls (ap_run env es autopost_init))"
    using jobs_ok_run[OF jobs_ok_init, of env es] by (simp add: jobs_ok_def)
next
  fix i assume "i < length (heap m)"
  then show "validUntilUnix (heap (ap_step env ev w m) ! i) = validUntilUnix (heap m ! i)"
    using heap_ext_step[of m env ev w] by (auto simp: heap_ext_def job_fixed_def)
next
  assume e: "validUntilUnix (heap m ! j) \<le> clock env w div 1000"
  show "runOnce env j w m = (RunStopped, expire_job j m, w)" by (rule runOnce_expired[OF e])
  show "intervalTick env j w m = (False, expire_job j m)" by (rule intervalTick_expired[OF e])
  show "calls (expire_job j m) = calls m" by (rule expire_job_facts)
  show "map_of (jobs (expire_job j m)) (job_name (heap m ! j)) = None" by (rule expire_job_gone)
  fix t assume "job_timer (heap m ! j) = Some t"
  then show "t \<notin> set (timers (expire_job j m))" by (rule expire_job_gone)
qed

lemma demo_history_calls:
  "map (\<lambda>c. (call_at c, call_args c)) (calls (ap_run demo_env demo_history autopost_init)) =
     [(1000000, JObj [(''channel'', JStr ''c''), (''valid_until_unix'', JNum 1010)]),
      (1005000, JObj [(''channel'', JStr ''c''), (''valid_until_unix'', JNum 1010)])]"
  by (simp add: demo_history_def ap_step_def demo_start)
     (simp add: demo_mgr_def runOnce_def intervalTick_def expire_job_def build_runArgs_def
        safeCloneArgs_def demo_env_def Let_def)

theorem autopost_publishes_fixed_valid_until_witness:
  "list_all (publish_ok (heap (ap_run demo_env demo_history autopost_init)))
     (calls (ap_run demo_env demo_history autopost_init)) \<and>
   map (\<lambda>c. (call_at c, call_args c)) (calls (ap_run demo_env demo_history autopost_init)) =
     [(1000000, JObj [(''channel'', JStr ''c''), (''valid_until_unix'', JNum 1010)]),
      (1005000, JObj [(''channel'', JStr ''c''), (''valid_until_unix'', JNum 1010)])] \<and>
   0 < length (heap demo_mgr) \<and>
   validUntilUnix (heap (ap_step demo_env (EvRun 0) 1010000 demo_mgr) ! 0) = 1010 \<and>
   validUntilUnix (heap demo_mgr ! 0) \<le> clock demo_env 1010000 div 1000 \<and>
   runOnce demo_env 0 1010000 demo_mgr = (RunStopped, expire_job 0 demo_mgr, 1010000) \<and>
   intervalTick demo_env 0 1010000 demo_mgr = (False, expire_job 0 demo_mgr) \<and>
   calls (expire_job 0 demo_mgr) = calls demo_mgr \<and>
   map_of (jobs (expire_job 0 demo_mgr)) ''job1'' = None \<and>
   0 \<notin> set (timers (expire_job 0 demo_mgr))"
proof -
  note t = autopost_publishes_fixed_valid_until[of demo_env demo_history demo_mgr "EvRun 0"
      1010000 0]
  have len: "0 < length (heap demo_mgr)" by (simp add: demo_mgr_def)
  have hyp: "validUntilUnix (heap demo_mgr ! 0) \<le> clock demo_env 1010000 div 1000"
    by (simp add: demo_mgr_def demo_env_def)
  have nm: "job_name (heap demo_mgr ! 0) = ''job1''" "job_timer (heap demo_mgr ! 0) = Some 0"
    "validUntilUnix (heap demo_mgr ! 0) = 1010"
    by (simp_all add: demo_mgr_def)
  from t len hyp nm demo_history_calls show ?thesis by auto
qed

section \<open>Verification: the receipts store\<close>

subsection \<open>Strings: trimming and lower case\<close>



lemma len_upper_lower: "length upper_chars = length lower_chars"
  by (simp add: upper_chars_def lower_chars_def)

lemma lower_char_upper: "c \<in> set upper_chars \<Longrightarrow> lower_char c \<in> set lower_chars"
proof -
  assume "c \<in> set upper_chars"
  then obtain d where d: "map_of (zip upper_chars lower_chars) c = Some d"
    using map_of_zip_is_Some[OF len_upper_lower, of c] by blast
  then have "d \<in> set lower_chars" by (meson map_of_SomeD set_zip_rightD)
  then show ?thesis by (simp add: lower_char_def d)
qed

lemma lower_char_other: "c \<notin> set upper_chars \<Longrightarrow> lower_char c = c"
  using map_of_zip_is_None[OF len_upper_lower, of c] by (simp add: lower_char_def)



lemma is_ws_lower: "is_ws (lower_char c) = is_ws c"
proof (cases "c \<in> set upper_chars")
  case True
  then have "\<not> is_ws c" by (auto simp: upper_chars_def is_ws_def ws_chars_def)
  moreover have "\<not> is_ws (lower_char c)"
    using lower_char_upper[OF True] by (auto simp: is_ws_def ws_chars_def lower_chars_def)
  ultimately show ?thesis by simp
next
  case False
  then show ?thesis by (simp add: lower_char_other)
qed

lemma trim_toLowerCase: "trim (toLowerCase s) = toLowerCase (trim s)"
proof -
  have c: "is_ws \<circ> lower_char = is_ws" by (auto simp: is_ws_lower)
  show ?thesis
    by (simp add: trim_def toLowerCase_def dropWhile_map rev_map c)
qed


subsection \<open>\<open>upsertTrade\<close> on a row that exists\<close>







lemma map_keys_id:
  assumes "distinct (map fst r)"
  shows "map (\<lambda>c. (c, col r c)) (map fst r) = r"
  using assms
proof (induction r)
  case Nil
  then show ?case by simp
next
  case (Cons a r)
  have "col (a # r) c = col r c" if "c \<in> set (map fst r)" for c
    using Cons.prems that by (cases a) (force simp: col_def)
  then have *: "map (\<lambda>c. (c, col (a # r) c)) (map fst r) = map (\<lambda>c. (c, col r c)) (map fst r)"
    by (intro map_cong) auto
  show ?case using Cons * by (cases a) (auto simp: col_def)
qed



















subsection \<open>The invariant of the table\<close>









subsection \<open>Lookup by payment hash\<close>

lemma getTradeByPaymentHash_cases:
  "getTradeByPaymentHash v db =
     (if v = JUndef then Inl BindUndefined
      else if v = JNull then Inr None
      else if is_hex_n 64 (norm_hex v)
      then Inr (map_option snd (find (\<lambda>ir. col (snd ir) ''ln_payment_hash_hex'' = SText (norm_hex v)) db))
      else Inl (NotHex32 ''paymentHashHex''))"
  by (simp add: getTradeByPaymentHash_def coerceHex32_def Let_def norm_hex_def)

lemma norm_hex_case_insensitive:
  assumes "toLowerCase s = toLowerCase s'"
  shows "norm_hex (JStr s) = norm_hex (JStr s')"
  using assms by (simp add: norm_hex_def trim_toLowerCase[symmetric])

lemma find_snd_in:
  "map_option snd (find P db) = Some r \<Longrightarrow> \<exists>i. (i, r) \<in> set db \<and> P (i, r)"
  by (induction db) (auto split: if_splits)

subsection \<open>The claims about the store\<close>





text \<open>
  C9, as the claim states it, fails for \<open>null\<close>: \<open>coerceHex32\<close> passes \<open>null\<close>
  through, the statement compares the column with \<open>NULL\<close>, which no row satisfies, and
  \<open>getTradeByPaymentHash(null)\<close> returns \<open>null\<close> instead of throwing, although
  \<open>null\<close> converts to no string of 64 hexadecimal characters.
\<close>

theorem getTradeByPaymentHash_null_counterexample:
  "getTradeByPaymentHash JNull demo_hash_db = Inr None \<and>
   \<not> is_hex_n 64 (toLowerCase (trim (String JNull)))"
  by (simp add: getTradeByPaymentHash_def coerceHex32_def is_hex_n_def toLowerCase_def trim_def
        is_ws_def ws_chars_def)

text \<open>
  C9, amended: \<open>getTradeByPaymentHash\<close> returns \<open>null\<close> for the argument \<open>null\<close>
  and otherwise throws unless its argument, converted to a string, trimmed and put in
  lower case, is exactly 64 hexadecimal characters. When it does look a hash up, it looks
  for the lower-case form: two strings that differ only in the case of their letters get
  the same answer, and a row that is returned holds 64 lower-case hexadecimal characters
  in \<open>ln_payment_hash_hex\<close>, equal to that form.
\<close>

theorem getTradeByPaymentHash_normalises:
  "(getTradeByPaymentHash v db = Inr res \<longrightarrow>
      (v = JNull \<and> res = None) \<or>
      (is_hex_n 64 (norm_hex v) \<and>
       res = map_option snd
               (find (\<lambda>ir. col (snd ir) ''ln_payment_hash_hex'' = SText (norm_hex v)) db))) \<and>
   (v \<noteq> JNull \<and> \<not> is_hex_n 64 (norm_hex v) \<longrightarrow> isl (getTradeByPaymentHash v db)) \<and>
   (toLowerCase s = toLowerCase s' \<longrightarrow>
      getTradeByPaymentHash (JStr s) db = getTradeByPaymentHash (JStr s') db) \<and>
   (getTradeByPaymentHash v db = Inr (Some r) \<longrightarrow>
      col r ''ln_payment_hash_hex'' = SText (norm_hex v) \<and> is_hex_n 64 (norm_hex v))"
proof (intro conjI impI)
  assume "getTradeByPaymentHash v db = Inr res"
  then show "(v = JNull \<and> res = None) \<or>
      (is_hex_n 64 (norm_hex v) \<and>
       res = map_option snd
               (find (\<lambda>ir. col (snd ir) ''ln_payment_hash_hex'' = SText (norm_hex v)) db))"
    by (auto simp: getTradeByPaymentHash_cases split: if_splits)
next
  assume "v \<noteq> JNull \<and> \<not> is_hex_n 64 (norm_hex v)"
  then show "isl (getTradeByPaymentHash v db)"
    by (simp add: getTradeByPaymentHash_cases)
next
  assume "toLowerCase s = toLowerCase s'"
  then have "norm_hex (JStr s) = norm_hex (JStr s')" by (rule norm_hex_case_insensitive)
  then show "getTradeByPaymentHash (JStr s) db = getTradeByPaymentHash (JStr s') db"
    by (simp add: getTradeByPaymentHash_cases)
next
  assume a: "getTradeByPaymentHash v db = Inr (Some r)"
  then have h: "is_hex_n 64 (norm_hex v)" and
    f: "map_option snd (find (\<lambda>ir. col (snd ir) ''ln_payment_hash_hex'' = SText (norm_hex v)) db)
          = Some r"
    by (auto simp: getTradeByPaymentHash_cases split: if_splits)
  from find_snd_in[OF f] show "col r ''ln_payment_hash_hex'' = SText (norm_hex v)" by auto
  from h show "is_hex_n 64 (norm_hex v)" .
qed

lemma demo_hash_norm: "norm_hex (JStr demo_hash_upper) = demo_hash"
  by code_simp

lemma demo_hash_lookup:
  "getTradeByPaymentHash (JStr demo_hash_upper) demo_hash_db =
     Inr (Some (AList.update ''ln_payment_hash_hex'' (SText demo_hash) demo_row))"
  by code_simp

theorem getTradeByPaymentHash_normalises_witness:
  "getTradeByPaymentHash (JStr demo_hash_upper) demo_hash_db =
     Inr (Some (AList.update ''ln_payment_hash_hex'' (SText demo_hash) demo_row)) \<and>
   is_hex_n 64 (norm_hex (JStr demo_hash_upper)) \<and>
   col (AList.update ''ln_payment_hash_hex'' (SText demo_hash) demo_row) ''ln_payment_hash_hex'' =
     SText (norm_hex (JStr demo_hash_upper)) \<and>
   JStr ''xyz'' \<noteq> JNull \<and> \<not> is_hex_n 64 (norm_hex (JStr ''xyz'')) \<and>
   isl (getTradeByPaymentHash (JStr ''xyz'') demo_hash_db) \<and>
   toLowerCase demo_hash_upper = toLowerCase demo_hash \<and>
   getTradeByPaymentHash (JStr demo_hash_upper) demo_hash_db =
     getTradeByPaymentHash (JStr demo_hash) demo_hash_db"
proof -
  note t1 = getTradeByPaymentHash_normalises[of "JStr demo_hash_upper" demo_hash_db
      "Some (AList.update ''ln_payment_hash_hex'' (SText demo_hash) demo_row)"
      demo_hash_upper demo_hash
      "AList.update ''ln_payment_hash_hex'' (SText demo_hash) demo_row"]
  note t2 = getTradeByPaymentHash_normalises[of "JStr ''xyz''" demo_hash_db]
  have lc: "toLowerCase demo_hash_upper = toLowerCase demo_hash"
    by code_simp
  have nx: "JStr ''xyz'' \<noteq> JNull \<and> \<not> is_hex_n 64 (norm_hex (JStr ''xyz''))"
    by code_simp
  have a: "col (AList.update ''ln_payment_hash_hex'' (SText demo_hash) demo_row)
             ''ln_payment_hash_hex'' = SText (norm_hex (JStr demo_hash_upper)) \<and>
           is_hex_n 64 (norm_hex (JStr demo_hash_upper))"
    using t1 demo_hash_lookup by blast
  have b: "isl (getTradeByPaymentHash (JStr ''xyz'') demo_hash_db)"
    using t2 nx by blast
  have c: "getTradeByPaymentHash (JStr demo_hash_upper) demo_hash_db =
           getTradeByPaymentHash (JStr demo_hash) demo_hash_db"
    using t1 lc by blast
  from a b c lc nx demo_hash_lookup show ?thesis by blast
qed

section \<open>Verification: matching an RFQ against the local offers\<close>









section \<open>Verification: the roles of the settlement state machine\<close>

lemma makerSigner_chain:
  "makerSigner termsEnv quoteEnv =
     (if truthy (obj_get termsEnv ''signer'') then signer_of termsEnv else signer_of quoteEnv)"
  by (simp add: makerSigner_def signer_of_def str_or_empty_def jor_def)

lemma takerSigner_chain:
  "takerSigner acceptEnv quoteAcceptEnv rfqEnv =
     (if truthy (obj_get acceptEnv ''signer'') then signer_of acceptEnv
      else if truthy (obj_get quoteAcceptEnv ''signer'') then signer_of quoteAcceptEnv
      else signer_of rfqEnv)"
  by (simp add: takerSigner_def signer_of_def str_or_empty_def jor_def)

text \<open>
  C3, as the claim states it, fails: the two signers are a fallback chain, not a
  disjunction. With a terms envelope signed by another peer and a quote signed by the
  local peer, the local peer equals \<open>quote.signer\<close> and is not treated as maker; with an
  accept signed by another peer and a quote_accept signed by the local peer (and the trade
  not among its own RFQs), it equals \<open>quote_accept.signer\<close> and is not treated as taker.
\<close>

theorem roles_not_disjunctions_counterexample:
  "spec_i_am_maker peer_a (signed_by peer_b) (signed_by peer_a) \<and>
   \<not> iAmMaker peer_a (signed_by peer_b) (signed_by peer_a) \<and>
   spec_i_am_taker peer_a (signed_by peer_b) (signed_by peer_a) [] ''t1'' \<and>
   \<not> iAmTaker peer_a (signed_by peer_b) (signed_by peer_a) JNull [] ''t1''"
  by code_simp

text \<open>
  C3, amended. The local peer is treated as maker if and only if its key is not empty and
  equals the signer of the terms envelope when that envelope has one, and the signer of the
  quote otherwise. It is treated as taker if and only if the trade is among its own RFQs,
  or its key is not empty and equals the first signer there is among those of the accept,
  the quote_accept and the RFQ. (Signers are compared trimmed and in lower case.) So a
  role the program assigns is one the disjunction of the specification assigns too, when
  the RFQ's signer is added to the taker's disjunction; the converse fails.
\<close>

theorem roles_are_fallback_chains:
  "(iAmMaker localPeer termsEnv quoteEnv \<longleftrightarrow>
      localPeer \<noteq> [] \<and>
      (if truthy (obj_get termsEnv ''signer'') then signer_of termsEnv = localPeer
       else signer_of quoteEnv = localPeer)) \<and>
   (iAmTaker localPeer acceptEnv quoteAcceptEnv rfqEnv myRfq tradeId \<longleftrightarrow>
      tradeId \<in> set myRfq \<or>
      (localPeer \<noteq> [] \<and>
       (if truthy (obj_get acceptEnv ''signer'') then signer_of acceptEnv = localPeer
        else if truthy (obj_get quoteAcceptEnv ''signer'') then signer_of quoteAcceptEnv = localPeer
        else signer_of rfqEnv = localPeer))) \<and>
   (iAmMaker localPeer termsEnv quoteEnv \<longrightarrow> spec_i_am_maker localPeer termsEnv quoteEnv) \<and>
   (iAmTaker localPeer acceptEnv quoteAcceptEnv rfqEnv myRfq tradeId \<longrightarrow>
      spec_i_am_taker localPeer acceptEnv quoteAcceptEnv myRfq tradeId \<or>
      localPeer = signer_of rfqEnv)"
  by (auto simp: iAmMaker_def iAmTaker_def makerSigner_chain takerSigner_chain
        spec_i_am_maker_def spec_i_am_taker_def)

theorem roles_are_fallback_chains_witness:
  "iAmMaker peer_a (signed_by peer_a) (signed_by peer_b) \<and>
   spec_i_am_maker peer_a (signed_by peer_a) (signed_by peer_b) \<and>
   iAmTaker peer_a JNull (signed_by peer_a) (signed_by peer_b) [] ''t1'' \<and>
   spec_i_am_taker peer_a JNull (signed_by peer_a) [] ''t1'' \<and>
   \<not> iAmMaker peer_a (signed_by peer_b) (signed_by peer_a)"
proof -
  note t = roles_are_fallback_chains[of peer_a "signed_by peer_a" "signed_by peer_b" JNull
      "signed_by peer_a" "signed_by peer_b" "[]" "''t1''"]
  note u = roles_are_fallback_chains[of peer_a "signed_by peer_b" "signed_by peer_a" JNull
      "signed_by peer_a" "signed_by peer_b" "[]" "''t1''"]
  have a: "peer_a \<noteq> []" "truthy (obj_get (signed_by peer_a) ''signer'')"
    "signer_of (signed_by peer_a) = peer_a" "\<not> truthy (obj_get JNull ''signer'')"
    "truthy (obj_get (signed_by peer_b) ''signer'')" "signer_of (signed_by peer_b) \<noteq> peer_a"
    by code_simp+
  have m: "iAmMaker peer_a (signed_by peer_a) (signed_by peer_b)"
    using t a by simp
  have sm: "spec_i_am_maker peer_a (signed_by peer_a) (signed_by peer_b)"
    using t m by blast
  have k: "iAmTaker peer_a JNull (signed_by peer_a) (signed_by peer_b) [] ''t1''"
    using t a by simp
  have "spec_i_am_taker peer_a JNull (signed_by peer_a) [] ''t1'' \<or>
        peer_a = signer_of (signed_by peer_b)"
    using t k by blast
  then have sk: "spec_i_am_taker peer_a JNull (signed_by peer_a) [] ''t1''"
    using a(6) by auto
  have n: "\<not> iAmMaker peer_a (signed_by peer_b) (signed_by peer_a)"
    using u a by simp
  from m sm k sk n show ?thesis by blast
qed

end
